theory Spec2Isabelle
  imports Main "HOL-Library.Word" "HOL-Library.List_Lexorder" "HOL-Library.AList"
begin

section \<open>JavaScript values\<close>

text \<open>
  A JavaScript string is a sequence of UTF-16 code units; the default comparison of
  \<^verbatim>\<open>Array.prototype.sort\<close> orders strings code unit by code unit, a proper prefix
  first, which is the lexicographic order on lists of \<^verbatim>\<open>HOL-Library.List_Lexorder\<close>.
\<close>

type_synonym jsstring = "16 word list"

text \<open>ASCII literals, to write concrete strings readably.\<close>

definition ascii :: "string \<Rightarrow> jsstring" where
  "ascii s = map of_char s"

text \<open>
  A number is an integer-valued double or \<^verbatim>\<open>NaN\<close>; only zero-ness, \<^verbatim>\<open>isNaN\<close> and
  \<^verbatim>\<open>>\<close> on millisecond timestamps are used by the code modelled here.
\<close>

datatype jsnum = Num int | NaN

text \<open>
  The payload of a transport event is whatever the peer sent; modelled are
  \<^verbatim>\<open>undefined\<close>, the scalars and plain objects. An object carries the identity of its
  allocation (every deserialised payload is a fresh object) and its own properties;
  with it, HOL equality on \<open>jsval\<close> is the SameValueZero comparison that \<^verbatim>\<open>Map\<close> uses
  on keys.
\<close>

datatype jsval =
    JUndefined
  | JNull
  | JBool bool
  | JNumber jsnum
  | JString jsstring
  | JObject nat "(jsstring \<times> jsval) list"

fun truthy :: "jsval \<Rightarrow> bool" where
  "truthy JUndefined = False"
| "truthy JNull = False"
| "truthy (JBool b) = b"
| "truthy (JNumber (Num n)) = (n \<noteq> 0)"
| "truthy (JNumber NaN) = False"
| "truthy (JString s) = (s \<noteq> [])"
| "truthy (JObject r fs) = True"

datatype jserror = TypeError

text \<open>
  Reading one property in a destructuring pattern \<^verbatim>\<open>const { k } = v\<close>: \<^verbatim>\<open>undefined\<close> and
  \<^verbatim>\<open>null\<close> cannot be destructured (TypeError); a property that is not there reads as
  \<^verbatim>\<open>undefined\<close>.
\<close>

fun getField :: "jsval \<Rightarrow> jsstring \<Rightarrow> jserror + jsval" where
  "getField JUndefined k = Inl TypeError"
| "getField JNull k = Inl TypeError"
| "getField (JObject r fs) k = Inr (case map_of fs k of None \<Rightarrow> JUndefined | Some v \<Rightarrow> v)"
| "getField v k = Inr JUndefined"

text \<open>
  A template literal converts the value in each of its holes to a string. On a
  deserialised object that calls \<^verbatim>\<open>Object.prototype.toString\<close>, unless the object has a
  property \<^verbatim>\<open>toString\<close> of its own: no deserialised value is callable, and the
  conversion throws a TypeError.
\<close>

fun stringifies :: "jsval \<Rightarrow> bool" where
  "stringifies (JObject r fs) = (map_of fs (ascii ''toString'') = None)"
| "stringifies v = True"

text \<open>Template literals render a non-negative integer in decimal.\<close>

fun digits :: "nat \<Rightarrow> jsstring" where
  "digits n = (if n < 10 then [0x30 + of_nat n]
               else digits (n div 10) @ [0x30 + of_nat (n mod 10)])"

declare digits.simps [simp del]

text \<open>\<^verbatim>\<open>String.prototype.trim\<close>: white space and line terminators are stripped at both ends.\<close>

definition isWhiteSpace :: "16 word \<Rightarrow> bool" where
  "isWhiteSpace c \<longleftrightarrow>
     c \<in> {0x9, 0xA, 0xB, 0xC, 0xD, 0x20, 0xA0, 0x1680, 0x2028, 0x2029, 0x202F, 0x205F,
          0x3000, 0xFEFF} \<or> (0x2000 \<le> c \<and> c \<le> 0x200A)"

definition trim :: "jsstring \<Rightarrow> jsstring" where
  "trim s = rev (dropWhile isWhiteSpace (rev (dropWhile isWhiteSpace s)))"

text \<open>\<^verbatim>\<open>Array.prototype.join\<close> and \<^verbatim>\<open>Array.prototype.findIndex\<close>.\<close>

fun join :: "jsstring \<Rightarrow> jsstring list \<Rightarrow> jsstring" where
  "join sep [] = []"
| "join sep [x] = x"
| "join sep (x # y # ys) = x @ sep @ join sep (y # ys)"

fun findIndex :: "('a \<Rightarrow> bool) \<Rightarrow> 'a list \<Rightarrow> int" where
  "findIndex P [] = - 1"
| "findIndex P (x # xs) =
     (if P x then 0 else (let i = findIndex P xs in if i = - 1 then - 1 else i + 1))"

text \<open>
  A \<^verbatim>\<open>Map\<close> keeps its entries in insertion order: \<^verbatim>\<open>set\<close> on a key that is present
  replaces the value where the entry stands and otherwise appends an entry, \<^verbatim>\<open>delete\<close>
  removes the entry of the key.
\<close>

definition Map_set :: "'k \<Rightarrow> 'v \<Rightarrow> ('k \<times> 'v) list \<Rightarrow> ('k \<times> 'v) list" where
  "Map_set k v m = AList.update k v m"

definition Map_delete :: "'k \<Rightarrow> ('k \<times> 'v) list \<Rightarrow> ('k \<times> 'v) list" where
  "Map_delete k m = AList.delete k m"

definition Map_get :: "'k \<Rightarrow> ('k \<times> 'v) list \<Rightarrow> 'v option" where
  "Map_get k m = map_of m k"


section \<open>Room identity (chat page, \<^verbatim>\<open>createRoomId\<close>)\<close>

text \<open>
  \<^verbatim>\<open>[String(userId1), String(userId2)].sort().join("--")\<close>. Both arguments are strings, on
  which \<^verbatim>\<open>String\<close> is the identity; the delimiter is two hyphens (code unit 0x2D).
\<close>

definition createRoomId :: "jsstring \<Rightarrow> jsstring \<Rightarrow> jsstring" where
  "createRoomId userId1 userId2 = join [0x2D, 0x2D] (sort [userId1, userId2])"


section \<open>The relay (\<^verbatim>\<open>server.js\<close>)\<close>

type_synonym socketId = jsstring

text \<open>The object \<^verbatim>\<open>{ text, roomId, senderId }\<close> emitted as \<^verbatim>\<open>receiveMessage\<close>.\<close>

record payload =
  p_text :: jsval
  p_roomId :: jsval
  p_senderId :: jsval

text \<open>One \<^verbatim>\<open>receiveMessage\<close> event put on the wire: the receiving socket and the payload.\<close>

type_synonym delivery = "socketId \<times> payload"

text \<open>
  The process-wide state: \<^verbatim>\<open>userSocketMap\<close> of \<^verbatim>\<open>server.js\<close>, and the room membership
  that the socket.io adapter keeps behind \<^verbatim>\<open>socket.join\<close>, \<^verbatim>\<open>socket.leave\<close> and
  \<^verbatim>\<open>socket.to\<close>, as the pairs (room, member socket). Among the rooms is, for every
  socket, the room named by its own id, which socket.io makes it join when it connects.
\<close>

record server =
  userSocketMap :: "(jsval \<times> socketId) list"
  rooms :: "(jsval \<times> socketId) list"

definition lookup :: "jsval \<Rightarrow> server \<Rightarrow> socketId option" where
  "lookup userId s = Map_get userId (userSocketMap s)"

definition membersOf :: "jsval \<Rightarrow> server \<Rightarrow> socketId list" where
  "membersOf roomId s = remdups (map snd (filter (\<lambda>(r, c). r = roomId) (rooms s)))"

text \<open>
  Every handler starts with a \<^verbatim>\<open>console.log\<close> of a template literal over its payload;
  a handler that throws is the result \<open>Inl\<close>.

  \<^verbatim>\<open>socket.on("registerUser", ...)\<close>
\<close>

definition registerUser :: "socketId \<Rightarrow> jsval \<Rightarrow> server \<Rightarrow> jserror + server" where
  "registerUser socket_id userId s =
     (if truthy userId
      then (if stringifies userId
            then Inr (s\<lparr>userSocketMap := Map_set userId socket_id (userSocketMap s)\<rparr>)
            else Inl TypeError)
      else Inr s)"

text \<open>\<^verbatim>\<open>socket.on("joinRoom", ...)\<close> and \<^verbatim>\<open>socket.on("leaveRoom", ...)\<close>\<close>

definition joinRoom :: "socketId \<Rightarrow> jsval \<Rightarrow> server \<Rightarrow> jserror + server" where
  "joinRoom socket_id roomId s =
     (if stringifies roomId
      then Inr (s\<lparr>rooms := List.insert (roomId, socket_id) (rooms s)\<rparr>)
      else Inl TypeError)"

definition leaveRoom :: "socketId \<Rightarrow> jsval \<Rightarrow> server \<Rightarrow> jserror + server" where
  "leaveRoom socket_id roomId s =
     (if stringifies roomId
      then Inr (s\<lparr>rooms := removeAll (roomId, socket_id) (rooms s)\<rparr>)
      else Inl TypeError)"

text \<open>
  \<^verbatim>\<open>socket.to(roomId).emit("receiveMessage", p)\<close>, as the socket.io adapter carries it out
  (the library is not part of the repository): \<^verbatim>\<open>socket.to\<close> broadcasts to the room
  with the room named \<^verbatim>\<open>socket.id\<close> as the only exception, and the adapter sends the
  event once to every socket of the room that is not a member of an excepted room. So
  the emitting socket is left out because, and as long as, it is in the room of its own
  id, and so is every other socket that has joined that room.
\<close>

definition to_emit :: "socketId \<Rightarrow> jsval \<Rightarrow> payload \<Rightarrow> server \<Rightarrow> delivery list" where
  "to_emit socket_id roomId p s =
     map (\<lambda>c. (c, p))
       (filter (\<lambda>c. c \<notin> set (membersOf (JString socket_id) s)) (membersOf roomId s))"

text \<open>
  \<^verbatim>\<open>socket.on("sendMessage", ...)\<close>: the payload is destructured, logged, then relayed.
  The handler assigns nothing, so its result is the error it throws or the events it
  emits.
\<close>

definition sendMessage :: "socketId \<Rightarrow> jsval \<Rightarrow> server \<Rightarrow> jserror + delivery list" where
  "sendMessage socket_id data s =
     (case getField data (ascii ''text'') of
        Inl e \<Rightarrow> Inl e
      | Inr text \<Rightarrow>
          (case getField data (ascii ''roomId'') of
             Inl e \<Rightarrow> Inl e
           | Inr roomId \<Rightarrow>
               (case getField data (ascii ''senderId'') of
                  Inl e \<Rightarrow> Inl e
                | Inr senderId \<Rightarrow>
                    if stringifies roomId \<and> stringifies senderId \<and> stringifies text
                    then Inr (to_emit socket_id roomId
                                \<lparr>p_text = text, p_roomId = roomId, p_senderId = senderId\<rparr> s)
                    else Inl TypeError)))"

text \<open>
  \<^verbatim>\<open>socket.on("disconnect", ...)\<close>: the loop walks the entries of \<^verbatim>\<open>userSocketMap\<close> in
  order, deletes the first one whose socket is the disconnecting one and breaks.
\<close>

fun disconnect_loop ::
  "socketId \<Rightarrow> (jsval \<times> socketId) list \<Rightarrow> (jsval \<times> socketId) list \<Rightarrow> (jsval \<times> socketId) list"
where
  "disconnect_loop socket_id [] m = m"
| "disconnect_loop socket_id ((userId, socketId) # entries) m =
     (if socketId = socket_id then Map_delete userId m
      else disconnect_loop socket_id entries m)"

definition disconnect :: "socketId \<Rightarrow> server \<Rightarrow> server" where
  "disconnect socket_id s =
     s\<lparr>userSocketMap := disconnect_loop socket_id (userSocketMap s) (userSocketMap s)\<rparr>"

text \<open>
  The events of one connection. socket.io puts a connecting socket into the room named
  by its id before it calls the \<^verbatim>\<open>connection\<close> listener, which logs and installs the
  handlers, and it takes a closing socket out of every room before it emits
  \<^verbatim>\<open>disconnect\<close>; no handler closes a connection itself.
\<close>

datatype event =
    Connect
  | RegisterUser jsval
  | JoinRoom jsval
  | LeaveRoom jsval
  | SendMessage jsval
  | Disconnect

definition connection :: "socketId \<Rightarrow> server \<Rightarrow> server" where
  "connection socket_id s = s\<lparr>rooms := List.insert (JString socket_id, socket_id) (rooms s)\<rparr>"

definition leaveAll :: "socketId \<Rightarrow> server \<Rightarrow> server" where
  "leaveAll socket_id s = s\<lparr>rooms := filter (\<lambda>(r, c). c \<noteq> socket_id) (rooms s)\<rparr>"

fun handle :: "socketId \<Rightarrow> event \<Rightarrow> server \<Rightarrow> jserror + (server \<times> delivery list)" where
  "handle c Connect s = Inr (connection c s, [])"
| "handle c (RegisterUser userId) s =
     (case registerUser c userId s of Inl e \<Rightarrow> Inl e | Inr s' \<Rightarrow> Inr (s', []))"
| "handle c (JoinRoom roomId) s =
     (case joinRoom c roomId s of Inl e \<Rightarrow> Inl e | Inr s' \<Rightarrow> Inr (s', []))"
| "handle c (LeaveRoom roomId) s =
     (case leaveRoom c roomId s of Inl e \<Rightarrow> Inl e | Inr s' \<Rightarrow> Inr (s', []))"
| "handle c (SendMessage data) s =
     (case sendMessage c data s of Inl e \<Rightarrow> Inl e | Inr ds \<Rightarrow> Inr (s, ds))"
| "handle c Disconnect s = Inr (disconnect c (leaveAll c s), [])"

text \<open>A history of events, each with the socket it arrives on, from a state on.\<close>

fun run :: "(socketId \<times> event) list \<Rightarrow> server \<Rightarrow> jserror + (server \<times> delivery list)" where
  "run [] s = Inr (s, [])"
| "run ((c, e) # es) s =
     (case handle c e s of
        Inl err \<Rightarrow> Inl err
      | Inr (s', ds) \<Rightarrow>
          (case run es s' of Inl err \<Rightarrow> Inl err | Inr (s'', ds') \<Rightarrow> Inr (s'', ds @ ds')))"





text \<open>
  A \<^verbatim>\<open>Map\<close> holds one entry for a key; the empty map of a starting process does, and
  every handler keeps it so.
\<close>

definition wf_server :: "server \<Rightarrow> bool" where
  "wf_server s \<longleftrightarrow> distinct (map fst (userSocketMap s))"

text \<open>
  A history of presence events, each with the socket it arrives on; the run ends at the
  first handler that throws.
\<close>

datatype presence_event = Register socketId jsval | Disconnected socketId

fun presence_step :: "presence_event \<Rightarrow> server \<Rightarrow> jserror + server" where
  "presence_step (Register c userId) s = registerUser c userId s"
| "presence_step (Disconnected c) s = Inr (disconnect c s)"

fun presence_run :: "presence_event list \<Rightarrow> server \<Rightarrow> jserror + server" where
  "presence_run [] s = Inr s"
| "presence_run (e # es) s =
     (case presence_step e s of Inl err \<Rightarrow> Inl err | Inr s' \<Rightarrow> presence_run es s')"


section \<open>The chat client (chat page)\<close>

text \<open>
  The interface \<^verbatim>\<open>ChatMessage\<close>; its fields are \<^verbatim>\<open>id\<close>, \<^verbatim>\<open>text\<close>, \<^verbatim>\<open>sender\<close>,
  \<^verbatim>\<open>roomId\<close>, \<^verbatim>\<open>timestamp\<close>, \<^verbatim>\<open>senderId\<close> and the optional \<^verbatim>\<open>created_at\<close>.
\<close>

datatype sender = Me | Other

record ChatMessage =
  cm_id :: jsstring
  cm_text :: jsstring
  cm_sender :: sender
  cm_roomId :: jsstring
  cm_timestamp :: jsnum
  cm_senderId :: jsstring
  cm_created_at :: "jsstring option"

text \<open>The argument \<^verbatim>\<open>msg\<close> of the \<^verbatim>\<open>receiveMessage\<close> listener.\<close>

record relayed =
  msg_text :: jsstring
  msg_roomId :: jsstring
  msg_senderId :: jsstring

text \<open>
  What the store returns: the row \<^verbatim>\<open>{ id, created_at }\<close> of an insert, and a row of
  \<^verbatim>\<open>chat_messages\<close> in a history query.
\<close>

record inserted =
  ins_id :: jsstring
  ins_created_at :: jsstring

record row =
  row_id :: jsstring
  row_room_id :: jsstring
  row_sender_id :: jsstring
  row_message_text :: jsstring
  row_created_at :: jsstring

text \<open>
  The outcome of awaiting the insert: \<^verbatim>\<open>error\<close> set, the promise rejected, or \<^verbatim>\<open>data\<close>
  (a row or \<^verbatim>\<open>null\<close>) without error. Likewise for the history query.
\<close>

datatype insert_result = InsertError | InsertThrows | InsertData "inserted option"

datatype query_result = QueryError | QueryThrows | QueryData "row list option"

text \<open>The \<^verbatim>\<open>sendMessage\<close> event the client emits: text, roomId, senderId.\<close>

datatype client_emit = EmitSendMessage jsstring jsstring jsstring

text \<open>
  The state of the page that the chat logic reads and writes. \<open>currentUserId\<close> is
  \<^verbatim>\<open>currentUser?.id\<close>; \<open>socket\<close> tells whether the module-level socket is set. A
  value that may be \<^verbatim>\<open>null\<close> or \<^verbatim>\<open>undefined\<close> is an option.
\<close>

record client =
  currentUserId :: "jsstring option"
  message :: jsstring
  chatHistory :: "ChatMessage list"
  selectedChatId :: "jsstring option"
  currentRoomId :: "jsstring option"
  socket :: bool
  isSocketConnected :: bool
  lastViewedTimestamps :: "jsstring \<Rightarrow> jsnum option"

definition truthy_str :: "jsstring option \<Rightarrow> bool" where
  "truthy_str v = (case v of None \<Rightarrow> False | Some s \<Rightarrow> s \<noteq> [])"

text \<open>
  \<^verbatim>\<open>receiveMessageHandler\<close>. \<open>now1\<close> and \<open>now2\<close> are the two readings of
  \<^verbatim>\<open>Date.now()\<close>, in milliseconds since the epoch.
\<close>

definition receiveMessageHandler :: "nat \<Rightarrow> nat \<Rightarrow> relayed \<Rightarrow> client \<Rightarrow> client" where
  "receiveMessageHandler now1 now2 msg s =
     (if Some (msg_senderId msg) = currentUserId s then s
      else if Some (msg_roomId msg) = currentRoomId s then
        s\<lparr>chatHistory := chatHistory s @
             [\<lparr>cm_id = msg_senderId msg @ [0x2D] @ digits now1,
               cm_text = msg_text msg,
               cm_sender = Other,
               cm_roomId = msg_roomId msg,
               cm_timestamp = Num (int now2),
               cm_senderId = msg_senderId msg,
               cm_created_at = None\<rparr>]\<rparr>
      else s)"

text \<open>
  \<^verbatim>\<open>fetchHistory\<close>, from the answer of the store on. \<open>getTime\<close> is
  \<^verbatim>\<open>new Date(...).getTime()\<close> on a timestamp string.
\<close>

definition formatRow :: "(jsstring \<Rightarrow> jsnum) \<Rightarrow> jsstring option \<Rightarrow> row \<Rightarrow> ChatMessage" where
  "formatRow getTime userId msg =
     \<lparr>cm_id = row_id msg,
      cm_text = row_message_text msg,
      cm_sender = (if Some (row_sender_id msg) = userId then Me else Other),
      cm_roomId = row_room_id msg,
      cm_timestamp = getTime (row_created_at msg),
      cm_senderId = row_sender_id msg,
      cm_created_at = Some (row_created_at msg)\<rparr>"

definition fetchHistory :: "(jsstring \<Rightarrow> jsnum) \<Rightarrow> query_result \<Rightarrow> client \<Rightarrow> client" where
  "fetchHistory getTime result s =
     (if \<not> truthy_str (currentUserId s) then s\<lparr>chatHistory := []\<rparr>
      else case result of
          QueryError \<Rightarrow> s\<lparr>chatHistory := []\<rparr>
        | QueryThrows \<Rightarrow> s\<lparr>chatHistory := []\<rparr>
        | QueryData None \<Rightarrow> s\<lparr>chatHistory := []\<rparr>
        | QueryData (Some data) \<Rightarrow>
            s\<lparr>chatHistory := map (formatRow getTime (currentUserId s)) data\<rparr>)"

text \<open>\<^verbatim>\<open>filteredChatHistory\<close> and \<^verbatim>\<open>lastViewedTime\<close>.\<close>

definition filteredChatHistory :: "client \<Rightarrow> ChatMessage list" where
  "filteredChatHistory s = filter (\<lambda>msg. Some (cm_roomId msg) = currentRoomId s) (chatHistory s)"

definition lastViewedTime :: "client \<Rightarrow> int" where
  "lastViewedTime s =
     (case currentRoomId s of
        None \<Rightarrow> 0
      | Some r \<Rightarrow>
          if r = [] then 0
          else (case lastViewedTimestamps s r of Some (Num n) \<Rightarrow> n | _ \<Rightarrow> 0))"

text \<open>\<^verbatim>\<open>firstUnreadIndex\<close>, with the callback of \<^verbatim>\<open>findIndex\<close> named \<open>isUnread\<close>.\<close>

fun num_gt :: "jsnum \<Rightarrow> int \<Rightarrow> bool" where
  "num_gt (Num a) b = (b < a)"
| "num_gt NaN b = False"

definition messageTime :: "(jsstring \<Rightarrow> jsnum) \<Rightarrow> ChatMessage \<Rightarrow> jsnum" where
  "messageTime getTime msg =
     (case cm_created_at msg of
        None \<Rightarrow> cm_timestamp msg
      | Some c \<Rightarrow> if c \<noteq> [] then getTime c else cm_timestamp msg)"

definition isUnread :: "(jsstring \<Rightarrow> jsnum) \<Rightarrow> int \<Rightarrow> ChatMessage \<Rightarrow> bool" where
  "isUnread getTime lastViewed msg =
     (let isMe = (cm_sender msg = Me);
          isValidTime = (messageTime getTime msg \<noteq> NaN)
      in isValidTime \<and> num_gt (messageTime getTime msg) lastViewed \<and> \<not> isMe)"

definition firstUnreadIndex :: "(jsstring \<Rightarrow> jsnum) \<Rightarrow> int \<Rightarrow> ChatMessage list \<Rightarrow> int" where
  "firstUnreadIndex getTime lastViewed filtered =
     (if 0 < lastViewed then findIndex (isUnread getTime lastViewed) filtered else - 1)"

text \<open>
  \<^verbatim>\<open>handleSend\<close> runs in two parts around the awaited insert. The first part checks
  the guard, clears the input and appends the optimistic message; what the second part
  needs of it is the closure \<open>send\<close>. The second part runs on the state the page has
  when the store answers, since the updates of the history are functions of the
  previous history.
\<close>

record send =
  tempId :: jsstring
  messageText :: jsstring
  send_roomId :: jsstring
  send_userId :: jsstring

definition handleSend_submit :: "nat \<Rightarrow> nat \<Rightarrow> client \<Rightarrow> (client \<times> send) option" where
  "handleSend_submit now1 now2 s =
     (case (currentRoomId s, selectedChatId s, currentUserId s) of
        (Some roomId, Some chatId, Some userId) \<Rightarrow>
          if socket s \<and> isSocketConnected s \<and> trim (message s) \<noteq> []
             \<and> roomId \<noteq> [] \<and> chatId \<noteq> [] \<and> userId \<noteq> []
          then
            let newMessage =
                  \<lparr>cm_id = userId @ [0x2D] @ digits now1,
                   cm_text = message s,
                   cm_sender = Me,
                   cm_roomId = roomId,
                   cm_timestamp = Num (int now2),
                   cm_senderId = userId,
                   cm_created_at = None\<rparr>
            in Some (s\<lparr>message := [], chatHistory := chatHistory s @ [newMessage]\<rparr>,
                     \<lparr>tempId = userId @ [0x2D] @ digits now1, messageText = message s,
                      send_roomId = roomId, send_userId = userId\<rparr>)
          else None
      | _ \<Rightarrow> None)"

text \<open>The update of the history once the store has returned \<^verbatim>\<open>insertedMessage\<close>.\<close>

definition confirmMessage ::
  "(jsstring \<Rightarrow> jsnum) \<Rightarrow> jsstring \<Rightarrow> inserted \<Rightarrow> ChatMessage list \<Rightarrow> ChatMessage list"
where
  "confirmMessage getTime tid insertedMessage prev =
     map (\<lambda>msg. if cm_id msg = tid
                then msg\<lparr>cm_id := ins_id insertedMessage,
                         cm_timestamp := getTime (ins_created_at insertedMessage),
                         cm_created_at := Some (ins_created_at insertedMessage)\<rparr>
                else msg) prev"

text \<open>
  The second part. Emitting on a socket that has meanwhile been set to \<^verbatim>\<open>null\<close> throws
  inside the \<^verbatim>\<open>try\<close> block, which runs the \<^verbatim>\<open>catch\<close> branch.
\<close>

definition handleSend_settle ::
  "(jsstring \<Rightarrow> jsnum) \<Rightarrow> send \<Rightarrow> insert_result \<Rightarrow> client \<Rightarrow> client \<times> client_emit list"
where
  "handleSend_settle getTime cl result s =
     (case result of
        InsertError \<Rightarrow>
          (s\<lparr>chatHistory := filter (\<lambda>msg. cm_id msg \<noteq> tempId cl) (chatHistory s),
             message := messageText cl\<rparr>, [])
      | InsertThrows \<Rightarrow>
          (s\<lparr>chatHistory := filter (\<lambda>msg. cm_id msg \<noteq> tempId cl) (chatHistory s),
             message := messageText cl\<rparr>, [])
      | InsertData insertedMessage \<Rightarrow>
          (let s1 = (case insertedMessage of
                       None \<Rightarrow> s
                     | Some r \<Rightarrow>
                         s\<lparr>chatHistory := confirmMessage getTime (tempId cl) r (chatHistory s)\<rparr>)
           in if socket s1
              then (s1, [EmitSendMessage (messageText cl) (send_roomId cl) (send_userId cl)])
              else (s1\<lparr>chatHistory := filter (\<lambda>msg. cm_id msg \<noteq> tempId cl) (chatHistory s1),
                       message := messageText cl\<rparr>, [])))"

text \<open>\<^verbatim>\<open>handleSend\<close> when nothing else happens while the insert is awaited.\<close>

definition handleSend ::
  "(jsstring \<Rightarrow> jsnum) \<Rightarrow> nat \<Rightarrow> nat \<Rightarrow> insert_result \<Rightarrow> client \<Rightarrow> client \<times> client_emit list"
where
  "handleSend getTime now1 now2 result s =
     (case handleSend_submit now1 now2 s of
        None \<Rightarrow> (s, [])
      | Some (s1, cl) \<Rightarrow> handleSend_settle getTime cl result s1)"

text \<open>
  The tag \<^verbatim>\<open>sender\<close> of a message says whether its \<^verbatim>\<open>senderId\<close> is the user of
  the page.
\<close>

definition tags_agree :: "jsstring option \<Rightarrow> ChatMessage list \<Rightarrow> bool" where
  "tags_agree userId xs \<longleftrightarrow> (\<forall>m \<in> set xs. (cm_sender m = Me) = (Some (cm_senderId m) = userId))"

text \<open>
  The condition of the unread boundary in the words of the specification: the
  \<^verbatim>\<open>created_at\<close> of the message is later than \<open>lastViewed\<close>, and its sender is not the
  viewing user. A message that carries no \<^verbatim>\<open>created_at\<close> does not meet it.
\<close>

definition unread_spec ::
  "(jsstring \<Rightarrow> jsnum) \<Rightarrow> int \<Rightarrow> jsstring option \<Rightarrow> ChatMessage \<Rightarrow> bool"
where
  "unread_spec getTime lastViewed selfId m \<longleftrightarrow>
     (case cm_created_at m of
        None \<Rightarrow> False
      | Some c \<Rightarrow> (case getTime c of Num t \<Rightarrow> lastViewed < t | NaN \<Rightarrow> False))
     \<and> Some (cm_senderId m) \<noteq> selfId"

text \<open>
  The same condition with the time of a message that carries no \<^verbatim>\<open>created_at\<close> (or an
  empty one) taken to be its client-side \<^verbatim>\<open>timestamp\<close>.
\<close>

definition unread_amended ::
  "(jsstring \<Rightarrow> jsnum) \<Rightarrow> int \<Rightarrow> jsstring option \<Rightarrow> ChatMessage \<Rightarrow> bool"
where
  "unread_amended getTime lastViewed selfId m \<longleftrightarrow>
     (case cm_created_at m of
        None \<Rightarrow> (case cm_timestamp m of Num t \<Rightarrow> lastViewed < t | NaN \<Rightarrow> False)
      | Some c \<Rightarrow>
          if c = [] then (case cm_timestamp m of Num t \<Rightarrow> lastViewed < t | NaN \<Rightarrow> False)
          else (case getTime c of Num t \<Rightarrow> lastViewed < t | NaN \<Rightarrow> False))
     \<and> Some (cm_senderId m) \<noteq> selfId"


section \<open>Properties of the room identity\<close>

lemma sort_pair: "sort [a, b] = (if a \<le> b then [a, b] else [b, a])"
  by simp

lemma createRoomId_unfold:
  "createRoomId a b = (if a \<le> b then a @ [0x2D, 0x2D] @ b else b @ [0x2D, 0x2D] @ a)"
  by (simp add: createRoomId_def)

text \<open>
  C4. For all user identifiers a and b, the room derived from (a, b) is the room derived
  from (b, a).
\<close>

theorem createRoomId_commutative: "createRoomId a b = createRoomId b a"
proof (cases "a \<le> b")
  case True
  then show ?thesis
    by (cases "b \<le> a") (auto simp: createRoomId_unfold)
next
  case False
  then have "b \<le> a" by simp
  with False show ?thesis by (simp add: createRoomId_unfold)
qed

text \<open>
  Splitting at the delimiter is unique once the part before it holds no delimiter
  character.
\<close>

lemma split_at_delimiter:
  assumes "x @ d # d # y = x' @ d # d # y'" and "d \<notin> set x" and "d \<notin> set x'"
  shows "x = x' \<and> y = y'"
  using assms
proof (induction x arbitrary: x')
  case Nil
  then show ?case by (cases x') auto
next
  case (Cons c x)
  then show ?case by (cases x') auto
qed

text \<open>
  C5. When no identifier contains the delimiter's character (the hyphen), two pairs with
  the same room identifier are the same unordered pair.
\<close>

theorem createRoomId_injective:
  assumes "0x2D \<notin> set a" and "0x2D \<notin> set b" and "0x2D \<notin> set c" and "0x2D \<notin> set d"
    and "createRoomId a b = createRoomId c d"
  shows "{a, b} = {c, d}"
proof -
  obtain x y where xy: "createRoomId a b = x @ 0x2D # 0x2D # y" "{a, b} = {x, y}"
    "0x2D \<notin> set x"
    using assms(1,2) by (cases "a \<le> b") (auto simp: createRoomId_unfold)
  obtain x' y' where xy': "createRoomId c d = x' @ 0x2D # 0x2D # y'" "{c, d} = {x', y'}"
    "0x2D \<notin> set x'"
    using assms(3,4) by (cases "c \<le> d") (auto simp: createRoomId_unfold)
  from assms(5) xy(1) xy'(1) have "x @ 0x2D # 0x2D # y = x' @ 0x2D # 0x2D # y'"
    by simp
  from this xy(3) xy'(3) have "x = x' \<and> y = y'"
    by (rule split_at_delimiter)
  with xy(2) xy'(2) show ?thesis by simp
qed

theorem createRoomId_injective_witness:
  "createRoomId (ascii ''alice'') (ascii ''bob'') = createRoomId (ascii ''bob'') (ascii ''alice'')
   \<and> {ascii ''alice'', ascii ''bob''} = {ascii ''bob'', ascii ''alice''}"
proof -
  have eq: "createRoomId (ascii ''alice'') (ascii ''bob'')
            = createRoomId (ascii ''bob'') (ascii ''alice'')"
    by (simp add: createRoomId_def ascii_def)
  have "{ascii ''alice'', ascii ''bob''} = {ascii ''bob'', ascii ''alice''}"
    using createRoomId_injective [of "ascii ''alice''" "ascii ''bob''" "ascii ''bob''" "ascii ''alice''"] eq
    by (simp add: ascii_def)
  with eq show ?thesis by simp
qed

text \<open>
  The constraint is needed: identifiers that contain hyphens can alias two different
  pairs to one room.
\<close>

lemma createRoomId_alias:
  "createRoomId (ascii ''a'') (ascii ''b--c'') = createRoomId (ascii ''a--b'') (ascii ''c'')"
  by (simp add: createRoomId_def ascii_def)


section \<open>Properties of the presence registry\<close>

lemma falsy_values:
  "\<not> truthy v \<longleftrightarrow>
     v \<in> {JUndefined, JNull, JBool False, JNumber (Num 0), JNumber NaN, JString []}"
  by (induction v rule: truthy.induct) auto

lemma stringifies_string: "stringifies (JString str)"
  by simp

lemma registerUser_Inr:
  assumes "registerUser c u s = Inr s'"
  shows "(\<not> truthy u \<and> s' = s)
       \<or> (truthy u \<and> stringifies u \<and> s' = s\<lparr>userSocketMap := Map_set u c (userSocketMap s)\<rparr>)"
  using assms by (auto simp: registerUser_def split: if_splits)

lemma lookup_registerUser:
  assumes "registerUser c u s = Inr s'" and "truthy u"
  shows "lookup u' s' = (if u' = u then Some c else lookup u' s)"
  using registerUser_Inr [OF assms(1)] assms(2)
  by (auto simp: lookup_def Map_get_def Map_set_def update_conv')

lemma lookup_registerUser_other:
  assumes "registerUser c u s = Inr s'" and "u' \<noteq> u"
  shows "lookup u' s' = lookup u' s"
  using registerUser_Inr [OF assms(1)] assms(2)
  by (auto simp: lookup_def Map_get_def Map_set_def update_conv')

lemma disconnect_loop_cases:
  "disconnect_loop d es m = m
   \<or> (\<exists>u0. (u0, d) \<in> set es \<and> disconnect_loop d es m = Map_delete u0 m)"
  by (induction d es m rule: disconnect_loop.induct) auto

lemma disconnect_cases:
  "disconnect d s = s \<or>
   (\<exists>u0. (u0, d) \<in> set (userSocketMap s)
        \<and> disconnect d s = s\<lparr>userSocketMap := Map_delete u0 (userSocketMap s)\<rparr>)"
  using disconnect_loop_cases [of d "userSocketMap s" "userSocketMap s"]
  by (auto simp: disconnect_def)

lemma lookup_disconnect_changed:
  assumes "wf_server s" and "lookup u (disconnect d s) \<noteq> lookup u s"
  shows "lookup u s = Some d"
proof -
  from assms(2) disconnect_cases [of d s]
  obtain u0 where u0: "(u0, d) \<in> set (userSocketMap s)"
    "disconnect d s = s\<lparr>userSocketMap := Map_delete u0 (userSocketMap s)\<rparr>"
    by auto
  from assms(1) u0(1) have "lookup u0 s = Some d"
    by (simp add: wf_server_def lookup_def Map_get_def)
  moreover from assms(2) u0(2) have "u = u0"
    by (auto simp: lookup_def Map_get_def Map_delete_def delete_conv' split: if_splits)
  ultimately show ?thesis by simp
qed

lemma wf_registerUser: "wf_server s \<Longrightarrow> registerUser c u s = Inr s' \<Longrightarrow> wf_server s'"
  by (auto simp: wf_server_def registerUser_def Map_set_def distinct_update split: if_splits)

lemma wf_disconnect: "wf_server s \<Longrightarrow> wf_server (disconnect d s)"
  using disconnect_cases [of d s]
  by (auto simp: wf_server_def Map_delete_def distinct_delete)

lemma wf_presence_step: "wf_server s \<Longrightarrow> presence_step e s = Inr s' \<Longrightarrow> wf_server s'"
  by (cases e) (auto simp: wf_registerUser wf_disconnect)

lemma wf_presence_run: "wf_server s \<Longrightarrow> presence_run es s = Inr s' \<Longrightarrow> wf_server s'"
proof (induction es arbitrary: s)
  case Nil
  then show ?case by simp
next
  case (Cons e es)
  then show ?case
    by (auto split: sum.splits dest: wf_presence_step)
qed

lemma presence_run_append:
  "presence_run (xs @ ys) s =
     (case presence_run xs s of Inl err \<Rightarrow> Inl err | Inr s' \<Rightarrow> presence_run ys s')"
  by (induction xs arbitrary: s) (auto split: sum.splits)

lemma presence_run_total:
  assumes "\<forall>c u. Register c u \<in> set es \<longrightarrow> stringifies u"
  shows "\<exists>s'. presence_run es s = Inr s'"
  using assms
proof (induction es arbitrary: s)
  case Nil
  show ?case by simp
next
  case (Cons e es)
  have "\<exists>s1. presence_step e s = Inr s1"
  proof (cases e)
    case (Register c u)
    with Cons.prems have "stringifies u" by auto
    with Register show ?thesis by (simp add: registerUser_def)
  next
    case (Disconnected d)
    then show ?thesis by simp
  qed
  then obtain s1 where s1: "presence_step e s = Inr s1" ..
  from Cons.prems have "\<forall>c u. Register c u \<in> set es \<longrightarrow> stringifies u" by auto
  from Cons.IH [OF this, of s1] s1 show ?case by simp
qed

lemma presence_step_keeps:
  assumes "wf_server s" and "lookup u s = Some c" and "presence_step e s = Inr s1"
    and "e \<noteq> Disconnected c" and "\<forall>c'. e \<noteq> Register c' u"
  shows "lookup u s1 = Some c"
proof (cases e)
  case (Register c' u')
  with assms(5) have "u \<noteq> u'" by auto
  with Register assms(2,3) show ?thesis
    by (simp add: lookup_registerUser_other)
next
  case (Disconnected d)
  with assms(4) have "d \<noteq> c" by auto
  with Disconnected assms(1,2,3) lookup_disconnect_changed [of s u d] show ?thesis
    by auto
qed

lemma presence_run_keeps:
  assumes "wf_server s" and "lookup u s = Some c" and "presence_run es s = Inr s'"
    and "Disconnected c \<notin> set es" and "\<forall>c'. Register c' u \<notin> set es"
  shows "lookup u s' = Some c"
  using assms
proof (induction es arbitrary: s)
  case Nil
  then show ?case by simp
next
  case (Cons e es)
  from Cons.prems(3) obtain s1 where s1: "presence_step e s = Inr s1" "presence_run es s1 = Inr s'"
    by (auto split: sum.splits)
  from Cons.prems(4,5) have e: "e \<noteq> Disconnected c" "\<forall>c'. e \<noteq> Register c' u"
    by auto
  have "lookup u s1 = Some c"
    using Cons.prems(1,2) s1(1) e by (rule presence_step_keeps)
  moreover have "wf_server s1"
    using Cons.prems(1) s1(1) by (rule wf_presence_step)
  ultimately show ?case
    using Cons.IH [of s1] s1(2) Cons.prems(4,5) by simp
qed

lemma presence_after_register:
  assumes "wf_server s" and "truthy u"
    and "presence_run (pre @ Register c u # post) s = Inr s'"
    and "Disconnected c \<notin> set post" and "\<forall>c'. Register c' u \<notin> set post"
  shows "lookup u s' = Some c"
proof -
  from assms(3) obtain s0 s1 where run:
    "presence_run pre s = Inr s0" "registerUser c u s0 = Inr s1" "presence_run post s1 = Inr s'"
    by (auto simp: presence_run_append split: sum.splits)
  have "wf_server s0" using assms(1) run(1) by (rule wf_presence_run)
  then have "wf_server s1" using run(2) by (rule wf_registerUser)
  moreover have "lookup u s1 = Some c"
    using run(2) assms(2) by (simp add: lookup_registerUser)
  ultimately show ?thesis
    using run(3) assms(4,5) by (rule presence_run_keeps)
qed

text \<open>
  C2. In a presence map with one entry for a key, for a user identifier that the guard
  of registration accepts, and for a history of register and disconnect events whose
  identifiers can be logged (every string can): the history is handled without error,
  and after it the user is looked up at the connection of its latest registration, as
  long as that connection has not itself disconnected since. In particular, after the
  user registers c1 and then c, and c1 disconnects, the lookup gives c. A disconnect
  changes the entry of a user only when the stored handle is the disconnecting
  connection.
\<close>

theorem presence_latest_registration:
  assumes "wf_server s" and "truthy u"
    and "\<forall>c' u'. Register c' u' \<in> set (pre @ Register c u # post) \<longrightarrow> stringifies u'"
  shows "(Disconnected c \<notin> set post \<and> (\<forall>c'. Register c' u \<notin> set post) \<longrightarrow>
            (\<exists>s'. presence_run (pre @ Register c u # post) s = Inr s' \<and> lookup u s' = Some c))
       \<and> (c1 \<noteq> c \<longrightarrow>
            (\<exists>s'. presence_run [Register c1 u, Register c u, Disconnected c1] s = Inr s'
                 \<and> lookup u s' = Some c))
       \<and> (\<forall>u' d. lookup u' (disconnect d s) \<noteq> lookup u' s \<longrightarrow> lookup u' s = Some d)"
proof (intro conjI impI allI)
  assume post: "Disconnected c \<notin> set post \<and> (\<forall>c'. Register c' u \<notin> set post)"
  from presence_run_total [OF assms(3), of s]
  obtain s' where s': "presence_run (pre @ Register c u # post) s = Inr s'" ..
  with assms(1,2) post have "lookup u s' = Some c"
    by (simp add: presence_after_register)
  with s' show "\<exists>s'. presence_run (pre @ Register c u # post) s = Inr s' \<and> lookup u s' = Some c"
    by blast
next
  assume ne: "c1 \<noteq> c"
  from assms(3) have u: "stringifies u" by auto
  then have "\<forall>c' u'. Register c' u' \<in> set ([Register c1 u] @ Register c u # [Disconnected c1])
               \<longrightarrow> stringifies u'"
    by auto
  from presence_run_total [OF this, of s]
  obtain s' where s': "presence_run ([Register c1 u] @ Register c u # [Disconnected c1]) s = Inr s'" ..
  moreover have "Disconnected c \<notin> set [Disconnected c1]" "\<forall>c'. Register c' u \<notin> set [Disconnected c1]"
    using ne by auto
  ultimately have "lookup u s' = Some c"
    using assms(1,2) by (rule presence_after_register [rotated 2])
  with s' show "\<exists>s'. presence_run [Register c1 u, Register c u, Disconnected c1] s = Inr s'
                 \<and> lookup u s' = Some c"
    by auto
next
  fix u' d
  assume "lookup u' (disconnect d s) \<noteq> lookup u' s"
  with assms(1) show "lookup u' s = Some d"
    by (rule lookup_disconnect_changed)
qed

theorem presence_latest_registration_witness:
  "wf_server \<lparr>userSocketMap = [], rooms = []\<rparr> \<and> truthy (JString (ascii ''u1''))
   \<and> (\<exists>s'. presence_run [Register (ascii ''tab1'') (JString (ascii ''u1'')),
                          Register (ascii ''tab2'') (JString (ascii ''u1'')),
                          Disconnected (ascii ''tab1'')]
              \<lparr>userSocketMap = [], rooms = []\<rparr> = Inr s'
           \<and> lookup (JString (ascii ''u1'')) s' = Some (ascii ''tab2''))"
proof -
  have wf: "wf_server \<lparr>userSocketMap = [], rooms = []\<rparr>"
    by (simp add: wf_server_def)
  have tr: "truthy (JString (ascii ''u1''))"
    by (simp add: ascii_def)
  have str: "\<forall>c' u'. Register c' u' \<in> set ([Register (ascii ''tab1'') (JString (ascii ''u1''))]
                 @ Register (ascii ''tab2'') (JString (ascii ''u1'')) # [Disconnected (ascii ''tab1'')])
               \<longrightarrow> stringifies u'"
    by auto
  have post: "Disconnected (ascii ''tab2'') \<notin> set [Disconnected (ascii ''tab1'')]
        \<and> (\<forall>c'. Register c' (JString (ascii ''u1'')) \<notin> set [Disconnected (ascii ''tab1'')])"
    by (simp add: ascii_def)
  from presence_latest_registration [OF wf tr str] post
  have "\<exists>s'. presence_run ([Register (ascii ''tab1'') (JString (ascii ''u1''))]
                 @ Register (ascii ''tab2'') (JString (ascii ''u1'')) # [Disconnected (ascii ''tab1'')])
              \<lparr>userSocketMap = [], rooms = []\<rparr> = Inr s'
           \<and> lookup (JString (ascii ''u1'')) s' = Some (ascii ''tab2'')"
    by blast
  then show ?thesis using wf tr by simp
qed

lemma presence_run_two_tabs:
  "presence_run [Register (ascii ''tab1'') (JString (ascii ''u1'')),
                 Register (ascii ''tab2'') (JString (ascii ''u1'')),
                 Disconnected (ascii ''tab1'')] \<lparr>userSocketMap = [], rooms = []\<rparr>
   = Inr \<lparr>userSocketMap = [(JString (ascii ''u1''), ascii ''tab2'')], rooms = []\<rparr>"
  by (simp add: registerUser_def disconnect_def Map_set_def Map_delete_def ascii_def)

text \<open>
  C10. A \<^verbatim>\<open>registerUser\<close> event whose user identifier is falsy (absent, or the empty
  string, among others) leaves the state as it is; registration is guarded, and takes
  effect for the other identifiers.
\<close>

theorem registerUser_falsy_unchanged:
  "(\<not> truthy userId \<longrightarrow> registerUser c userId s = Inr s)
   \<and> (truthy userId \<and> stringifies userId \<longrightarrow>
        (\<exists>s'. registerUser c userId s = Inr s' \<and> lookup userId s' = Some c))
   \<and> \<not> truthy JUndefined \<and> \<not> truthy (JString [])"
  by (simp add: registerUser_def lookup_def Map_get_def Map_set_def update_conv')

theorem registerUser_falsy_unchanged_witness:
  "registerUser (ascii ''c2'') JUndefined
       \<lparr>userSocketMap = [(JString (ascii ''u1''), ascii ''c1'')], rooms = []\<rparr>
     = Inr \<lparr>userSocketMap = [(JString (ascii ''u1''), ascii ''c1'')], rooms = []\<rparr>
   \<and> registerUser (ascii ''c2'') (JString [])
       \<lparr>userSocketMap = [(JString (ascii ''u1''), ascii ''c1'')], rooms = []\<rparr>
     = Inr \<lparr>userSocketMap = [(JString (ascii ''u1''), ascii ''c1'')], rooms = []\<rparr>
   \<and> (\<exists>s'. registerUser (ascii ''c2'') (JString (ascii ''u1''))
              \<lparr>userSocketMap = [(JString (ascii ''u1''), ascii ''c1'')], rooms = []\<rparr> = Inr s'
           \<and> lookup (JString (ascii ''u1'')) s' = Some (ascii ''c2''))"
proof -
  let ?s = "\<lparr>userSocketMap = [(JString (ascii ''u1''), ascii ''c1'')], rooms = []\<rparr>"
  have a: "\<not> truthy JUndefined" "\<not> truthy (JString [])" by simp_all
  have b: "truthy (JString (ascii ''u1'')) \<and> stringifies (JString (ascii ''u1''))"
    by (simp add: ascii_def)
  from registerUser_falsy_unchanged [of JUndefined "ascii ''c2''" ?s] a
  have 1: "registerUser (ascii ''c2'') JUndefined ?s = Inr ?s" by blast
  from registerUser_falsy_unchanged [of "JString []" "ascii ''c2''" ?s] a
  have 2: "registerUser (ascii ''c2'') (JString []) ?s = Inr ?s" by blast
  from registerUser_falsy_unchanged [of "JString (ascii ''u1'')" "ascii ''c2''" ?s] b
  have 3: "\<exists>s'. registerUser (ascii ''c2'') (JString (ascii ''u1'')) ?s = Inr s'
           \<and> lookup (JString (ascii ''u1'')) s' = Some (ascii ''c2'')" by blast
  from 1 2 3 show ?thesis by blast
qed


section \<open>Properties of room membership and dispatch\<close>

lemma set_membersOf: "set (membersOf roomId s) = {c. (roomId, c) \<in> set (rooms s)}"
  by (force simp: membersOf_def)

lemma distinct_membersOf: "distinct (membersOf roomId s)"
  by (simp add: membersOf_def)

lemma to_emit_recipients:
  "fst ` set (to_emit c roomId p s)
     = {c'. (roomId, c') \<in> set (rooms s) \<and> (JString c, c') \<notin> set (rooms s)}"
  by (auto simp: to_emit_def set_membersOf image_iff)

lemma to_emit_payload: "snd ` set (to_emit c roomId p s) \<subseteq> {p}"
  by (auto simp: to_emit_def)

lemma distinct_to_emit: "distinct (map fst (to_emit c roomId p s))"
  by (simp add: to_emit_def comp_def distinct_membersOf)

lemma join_then_leave:
  assumes "joinRoom c r s = Inr s1" and "leaveRoom c r s1 = Inr s2"
  shows "c \<notin> set (membersOf r s2)"
  using assms by (auto simp: set_membersOf leaveRoom_def joinRoom_def split: if_splits)



lemma sendMessage_nullish:
  "sendMessage c JUndefined s = Inl TypeError" "sendMessage c JNull s = Inl TypeError"
  by (simp_all add: sendMessage_def)

lemma sendMessage_unprintable:
  "sendMessage c (JObject 0 [(ascii ''text'', JObject 1 [(ascii ''toString'', JNull)])]) s
     = Inl TypeError"
  by (simp add: sendMessage_def ascii_def)

lemma sendMessage_to_emit:
  assumes "getField data (ascii ''text'') = Inr tx"
    and "getField data (ascii ''roomId'') = Inr roomId"
    and "getField data (ascii ''senderId'') = Inr senderId"
    and "stringifies tx" and "stringifies roomId" and "stringifies senderId"
  shows "sendMessage c data s =
           Inr (to_emit c roomId \<lparr>p_text = tx, p_roomId = roomId, p_senderId = senderId\<rparr> s)"
  using assms by (simp add: sendMessage_def)

text \<open>
  Who receives a relayed message: the members of the room that are not in the room named
  by the sender's socket id. While that room holds the sender and nobody else, as it
  does after connecting, these are the members of the room other than the sender.
\<close>

lemma sendMessage_recipients:
  assumes "getField data (ascii ''text'') = Inr tx"
    and "getField data (ascii ''roomId'') = Inr roomId"
    and "getField data (ascii ''senderId'') = Inr senderId"
    and "stringifies tx" and "stringifies roomId" and "stringifies senderId"
  shows "\<exists>ds. sendMessage c data s = Inr ds
           \<and> (\<forall>c'. c' \<in> fst ` set ds \<longleftrightarrow>
                  (roomId, c') \<in> set (rooms s) \<and> (JString c, c') \<notin> set (rooms s))
           \<and> distinct (map fst ds)
           \<and> snd ` set ds \<subseteq> {\<lparr>p_text = tx, p_roomId = roomId, p_senderId = senderId\<rparr>}"
proof -
  let ?p = "\<lparr>p_text = tx, p_roomId = roomId, p_senderId = senderId\<rparr>"
  have "sendMessage c data s = Inr (to_emit c roomId ?p s)"
    using assms by (rule sendMessage_to_emit)
  moreover have "\<forall>c'. c' \<in> fst ` set (to_emit c roomId ?p s) \<longleftrightarrow>
                  (roomId, c') \<in> set (rooms s) \<and> (JString c, c') \<notin> set (rooms s)"
    by (simp add: to_emit_recipients)
  ultimately show ?thesis
    using distinct_to_emit [of c roomId ?p s] to_emit_payload [of c roomId ?p s] by blast
qed

lemma sendMessage_own_room_intact:
  assumes "getField data (ascii ''text'') = Inr tx"
    and "getField data (ascii ''roomId'') = Inr roomId"
    and "getField data (ascii ''senderId'') = Inr senderId"
    and "stringifies tx" and "stringifies roomId" and "stringifies senderId"
    and own: "\<forall>c'. (JString c, c') \<in> set (rooms s) \<longleftrightarrow> c' = c"
  shows "\<exists>ds. sendMessage c data s = Inr ds
           \<and> (\<forall>c'. c' \<in> fst ` set ds \<longleftrightarrow> (roomId, c') \<in> set (rooms s) \<and> c' \<noteq> c)
           \<and> c \<notin> fst ` set ds"
  using sendMessage_recipients [OF assms(1-6), of c s] own by auto

lemma sendMessage_normal_run:
  "run [(ascii ''c1'', Connect), (ascii ''c2'', Connect),
        (ascii ''c1'', JoinRoom (JString (ascii ''r''))),
        (ascii ''c2'', JoinRoom (JString (ascii ''r''))),
        (ascii ''c1'', SendMessage (JObject 0 [(ascii ''text'', JString (ascii ''hi'')),
                                               (ascii ''roomId'', JString (ascii ''r'')),
                                               (ascii ''senderId'', JString (ascii ''a''))]))]
       \<lparr>userSocketMap = [], rooms = []\<rparr>
   = Inr (\<lparr>userSocketMap = [],
           rooms = [(JString (ascii ''r''), ascii ''c2''), (JString (ascii ''r''), ascii ''c1''),
                    (JString (ascii ''c2''), ascii ''c2''), (JString (ascii ''c1''), ascii ''c1'')]\<rparr>,
          [(ascii ''c2'', \<lparr>p_text = JString (ascii ''hi''), p_roomId = JString (ascii ''r''),
                           p_senderId = JString (ascii ''a'')\<rparr>)])"
  by code_simp

text \<open>
  C3. Dispatch is to send the payload to every member of the room except the sender's
  connection, and never to the sender's connection. The handler does not do so in every
  state its own events reach: two connections join a room, the first leaves the room
  named by its own socket id through \<^verbatim>\<open>leaveRoom\<close> and then sends; the message is
  delivered to the second connection and to the sender itself.
\<close>

theorem sendMessage_reaches_sender:
  "run [(ascii ''c1'', Connect), (ascii ''c2'', Connect),
        (ascii ''c1'', JoinRoom (JString (ascii ''r''))),
        (ascii ''c2'', JoinRoom (JString (ascii ''r''))),
        (ascii ''c1'', LeaveRoom (JString (ascii ''c1''))),
        (ascii ''c1'', SendMessage (JObject 0 [(ascii ''text'', JString (ascii ''hi'')),
                                               (ascii ''roomId'', JString (ascii ''r'')),
                                               (ascii ''senderId'', JString (ascii ''a''))]))]
       \<lparr>userSocketMap = [], rooms = []\<rparr>
   = Inr (\<lparr>userSocketMap = [],
           rooms = [(JString (ascii ''r''), ascii ''c2''), (JString (ascii ''r''), ascii ''c1''),
                    (JString (ascii ''c2''), ascii ''c2'')]\<rparr>,
          [(ascii ''c2'', \<lparr>p_text = JString (ascii ''hi''), p_roomId = JString (ascii ''r''),
                           p_senderId = JString (ascii ''a'')\<rparr>),
           (ascii ''c1'', \<lparr>p_text = JString (ascii ''hi''), p_roomId = JString (ascii ''r''),
                           p_senderId = JString (ascii ''a'')\<rparr>)])"
  by code_simp

text \<open>
  Likewise a member that has joined the room named by the sender's socket id receives
  nothing.
\<close>

lemma sendMessage_skips_member:
  "run [(ascii ''c1'', Connect), (ascii ''c2'', Connect),
        (ascii ''c1'', JoinRoom (JString (ascii ''r''))),
        (ascii ''c2'', JoinRoom (JString (ascii ''r''))),
        (ascii ''c2'', JoinRoom (JString (ascii ''c1''))),
        (ascii ''c1'', SendMessage (JObject 0 [(ascii ''text'', JString (ascii ''hi'')),
                                               (ascii ''roomId'', JString (ascii ''r'')),
                                               (ascii ''senderId'', JString (ascii ''a''))]))]
       \<lparr>userSocketMap = [], rooms = []\<rparr>
   = Inr (\<lparr>userSocketMap = [],
           rooms = [(JString (ascii ''c1''), ascii ''c2''), (JString (ascii ''r''), ascii ''c2''),
                    (JString (ascii ''r''), ascii ''c1''), (JString (ascii ''c2''), ascii ''c2''),
                    (JString (ascii ''c1''), ascii ''c1'')]\<rparr>, [])"
  by code_simp





lemma handle_SendMessage_state:
  "handle c (SendMessage p) s = Inr (s', ds) \<Longrightarrow> s' = s"
  by (auto split: sum.splits)











section \<open>Properties of the client: live relay events\<close>

text \<open>
  C6. Whatever the local sequence is (in particular the persisted history of the active
  room), a relay event whose sender is not the user of the page and whose room is the
  active room appends one message, carrying the text, room and sender of the event, at
  the end of the sequence and of the displayed sequence; nothing before it changes. An
  event whose sender is the user of the page, or whose room is not the active room,
  leaves the state as it is.
\<close>

theorem receiveMessageHandler_appends:
  "(Some (msg_senderId msg) \<noteq> currentUserId s \<and> Some (msg_roomId msg) = currentRoomId s \<longrightarrow>
      (\<exists>m. chatHistory (receiveMessageHandler now1 now2 msg s) = chatHistory s @ [m]
          \<and> filteredChatHistory (receiveMessageHandler now1 now2 msg s) = filteredChatHistory s @ [m]
          \<and> cm_text m = msg_text msg \<and> cm_roomId m = msg_roomId msg
          \<and> cm_senderId m = msg_senderId msg \<and> cm_sender m = Other))
   \<and> (Some (msg_senderId msg) = currentUserId s \<or> Some (msg_roomId msg) \<noteq> currentRoomId s \<longrightarrow>
        receiveMessageHandler now1 now2 msg s = s)"
  by (auto simp: receiveMessageHandler_def filteredChatHistory_def)

theorem receiveMessageHandler_appends_witness:
  "(\<exists>m. chatHistory (receiveMessageHandler 7 8
             \<lparr>msg_text = ascii ''hi'', msg_roomId = ascii ''me--peer'', msg_senderId = ascii ''peer''\<rparr>
             \<lparr>currentUserId = Some (ascii ''me''), message = [],
              chatHistory = [\<lparr>cm_id = ascii ''1'', cm_text = ascii ''yo'', cm_sender = Me,
                      cm_roomId = ascii ''me--peer'', cm_timestamp = Num 1,
                      cm_senderId = ascii ''me'', cm_created_at = Some (ascii ''t1'')\<rparr>],
              selectedChatId = Some (ascii ''peer''), currentRoomId = Some (ascii ''me--peer''),
              socket = True, isSocketConnected = True, lastViewedTimestamps = (\<lambda>r. None)\<rparr>)
          = [\<lparr>cm_id = ascii ''1'', cm_text = ascii ''yo'', cm_sender = Me,
                      cm_roomId = ascii ''me--peer'', cm_timestamp = Num 1,
                      cm_senderId = ascii ''me'', cm_created_at = Some (ascii ''t1'')\<rparr>, m]
          \<and> cm_text m = ascii ''hi'' \<and> cm_senderId m = ascii ''peer'')
   \<and> receiveMessageHandler 7 8
        \<lparr>msg_text = ascii ''hi'', msg_roomId = ascii ''me--peer'', msg_senderId = ascii ''me''\<rparr>
        \<lparr>currentUserId = Some (ascii ''me''), message = [],
              chatHistory = [], selectedChatId = Some (ascii ''peer''),
              currentRoomId = Some (ascii ''me--peer''),
              socket = True, isSocketConnected = True, lastViewedTimestamps = (\<lambda>r. None)\<rparr>
      = \<lparr>currentUserId = Some (ascii ''me''), message = [],
              chatHistory = [], selectedChatId = Some (ascii ''peer''),
              currentRoomId = Some (ascii ''me--peer''),
              socket = True, isSocketConnected = True, lastViewedTimestamps = (\<lambda>r. None)\<rparr>"
proof -
  let ?m1 = "\<lparr>cm_id = ascii ''1'', cm_text = ascii ''yo'', cm_sender = Me,
                      cm_roomId = ascii ''me--peer'', cm_timestamp = Num 1,
                      cm_senderId = ascii ''me'', cm_created_at = Some (ascii ''t1'')\<rparr>"
  let ?s = "\<lparr>currentUserId = Some (ascii ''me''), message = [],
              chatHistory = [?m1],
              selectedChatId = Some (ascii ''peer''), currentRoomId = Some (ascii ''me--peer''),
              socket = True, isSocketConnected = True, lastViewedTimestamps = (\<lambda>r. None)\<rparr>"
  let ?e = "\<lparr>currentUserId = Some (ascii ''me''), message = [],
              chatHistory = [], selectedChatId = Some (ascii ''peer''),
              currentRoomId = Some (ascii ''me--peer''),
              socket = True, isSocketConnected = True, lastViewedTimestamps = (\<lambda>r. None)\<rparr>"
  let ?peer = "\<lparr>msg_text = ascii ''hi'', msg_roomId = ascii ''me--peer'', msg_senderId = ascii ''peer''\<rparr>"
  let ?own = "\<lparr>msg_text = ascii ''hi'', msg_roomId = ascii ''me--peer'', msg_senderId = ascii ''me''\<rparr>"
  have h1: "Some (msg_senderId ?peer) \<noteq> currentUserId ?s \<and> Some (msg_roomId ?peer) = currentRoomId ?s"
    by (simp add: ascii_def)
  have h2: "Some (msg_senderId ?own) = currentUserId ?e \<or> Some (msg_roomId ?own) \<noteq> currentRoomId ?e"
    by simp
  from receiveMessageHandler_appends [of ?peer ?s 7 8] h1
  obtain m where "chatHistory (receiveMessageHandler 7 8 ?peer ?s) = chatHistory ?s @ [m]"
    "cm_text m = msg_text ?peer" "cm_senderId m = msg_senderId ?peer"
    by blast
  then have a: "\<exists>m. chatHistory (receiveMessageHandler 7 8 ?peer ?s) = [?m1, m]
          \<and> cm_text m = ascii ''hi'' \<and> cm_senderId m = ascii ''peer''"
    by simp
  from receiveMessageHandler_appends [of ?own ?e 7 8] h2
  have b: "receiveMessageHandler 7 8 ?own ?e = ?e" by blast
  from a b show ?thesis by blast
qed

lemma receive_after_history:
  assumes "truthy_str (currentUserId s)"
    and "Some (msg_senderId msg) \<noteq> currentUserId s" and "Some (msg_roomId msg) = currentRoomId s"
  shows "\<exists>m. chatHistory (receiveMessageHandler now1 now2 msg (fetchHistory getTime (QueryData (Some data)) s))
              = map (formatRow getTime (currentUserId s)) data @ [m]
            \<and> cm_text m = msg_text msg \<and> cm_roomId m = msg_roomId msg
            \<and> cm_senderId m = msg_senderId msg"
  using assms by (simp add: receiveMessageHandler_def fetchHistory_def)


section \<open>Properties of the client: optimistic send\<close>

lemma handleSend_submit_optimistic:
  assumes "handleSend_submit now1 now2 s = Some (s1, cl)"
  shows "\<exists>m. s1 = s\<lparr>message := [], chatHistory := chatHistory s @ [m]\<rparr>
           \<and> cm_id m = tempId cl \<and> cm_text m = message s \<and> cm_sender m = Me
           \<and> Some (cm_roomId m) = currentRoomId s \<and> Some (cm_senderId m) = currentUserId s
           \<and> messageText cl = message s
           \<and> Some (send_roomId cl) = currentRoomId s \<and> Some (send_userId cl) = currentUserId s"
  using assms
  by (auto simp: handleSend_submit_def Let_def split: option.splits if_splits)

lemma handleSend_submit_guard:
  "(\<exists>s1 cl. handleSend_submit now1 now2 s = Some (s1, cl)) \<longleftrightarrow>
     socket s \<and> isSocketConnected s \<and> trim (message s) \<noteq> []
     \<and> truthy_str (currentRoomId s) \<and> truthy_str (selectedChatId s) \<and> truthy_str (currentUserId s)"
  by (auto simp: handleSend_submit_def truthy_str_def Let_def split: option.splits)

lemma handleSend_settle_failure:
  assumes "result = InsertError \<or> result = InsertThrows"
  shows "handleSend_settle getTime cl result s2 =
           (s2\<lparr>chatHistory := filter (\<lambda>msg. cm_id msg \<noteq> tempId cl) (chatHistory s2),
               message := messageText cl\<rparr>, [])"
  using assms by (auto simp: handleSend_settle_def)

text \<open>
  The rollback selects by id. For a send that passes the guard, when the insert reports
  an error or throws: no \<^verbatim>\<open>sendMessage\<close> is emitted, the input holds the composed text
  again, and no message with the temporary id is left in the sequence, which is the
  sequence before the send without the entries of that id. When no earlier entry has the
  temporary id, the state of the page, and with it the displayed sequence, is what it
  was before the send. Removal, restoration and the absence of an emit also hold on
  whatever state the page has when the store answers.
\<close>

lemma handleSend_persistence_failure:
  assumes "handleSend_submit now1 now2 s = Some (s1, cl)"
    and "result = InsertError \<or> result = InsertThrows"
  shows "snd (handleSend getTime now1 now2 result s) = []
       \<and> message (fst (handleSend getTime now1 now2 result s)) = message s
       \<and> chatHistory (fst (handleSend getTime now1 now2 result s))
           = filter (\<lambda>m. cm_id m \<noteq> tempId cl) (chatHistory s)
       \<and> tempId cl \<notin> cm_id ` set (chatHistory (fst (handleSend getTime now1 now2 result s)))
       \<and> (tempId cl \<notin> cm_id ` set (chatHistory s) \<longrightarrow>
            fst (handleSend getTime now1 now2 result s) = s
          \<and> filteredChatHistory (fst (handleSend getTime now1 now2 result s)) = filteredChatHistory s)
       \<and> (\<forall>s2. snd (handleSend_settle getTime cl result s2) = []
              \<and> message (fst (handleSend_settle getTime cl result s2)) = message s
              \<and> tempId cl \<notin> cm_id ` set (chatHistory (fst (handleSend_settle getTime cl result s2))))"
proof -
  from assms(1) obtain m where m:
    "s1 = s\<lparr>message := [], chatHistory := chatHistory s @ [m]\<rparr>" "cm_id m = tempId cl"
    "messageText cl = message s"
    using handleSend_submit_optimistic by blast
  have settle: "\<And>s2. handleSend_settle getTime cl result s2 =
           (s2\<lparr>chatHistory := filter (\<lambda>msg. cm_id msg \<noteq> tempId cl) (chatHistory s2),
               message := message s\<rparr>, [])"
    using assms(2) m(3) by (simp add: handleSend_settle_failure)
  have run: "handleSend getTime now1 now2 result s =
           (s\<lparr>chatHistory := filter (\<lambda>msg. cm_id msg \<noteq> tempId cl) (chatHistory s),
              message := message s\<rparr>, [])"
    using assms(1) m(1,2) by (simp add: handleSend_def settle)
  have fresh: "filter (\<lambda>msg. cm_id msg \<noteq> tempId cl) (chatHistory s) = chatHistory s"
    if "tempId cl \<notin> cm_id ` set (chatHistory s)"
    using that by (simp add: filter_id_conv) (metis image_eqI)
  show ?thesis
    using fresh by (auto simp: run settle)
qed

lemma handleSend_persistence_failure_example:
  "handleSend (\<lambda>c. NaN) 5 6 InsertError
     \<lparr>currentUserId = Some (ascii ''me''), message = ascii ''hi'',
      chatHistory = [\<lparr>cm_id = ascii ''1'', cm_text = ascii ''yo'', cm_sender = Other,
                      cm_roomId = ascii ''me--peer'', cm_timestamp = Num 1,
                      cm_senderId = ascii ''peer'', cm_created_at = None\<rparr>],
      selectedChatId = Some (ascii ''peer''), currentRoomId = Some (ascii ''me--peer''),
      socket = True, isSocketConnected = True, lastViewedTimestamps = (\<lambda>r. None)\<rparr>
   = (\<lparr>currentUserId = Some (ascii ''me''), message = ascii ''hi'',
      chatHistory = [\<lparr>cm_id = ascii ''1'', cm_text = ascii ''yo'', cm_sender = Other,
                      cm_roomId = ascii ''me--peer'', cm_timestamp = Num 1,
                      cm_senderId = ascii ''peer'', cm_created_at = None\<rparr>],
      selectedChatId = Some (ascii ''peer''), currentRoomId = Some (ascii ''me--peer''),
      socket = True, isSocketConnected = True, lastViewedTimestamps = (\<lambda>r. None)\<rparr>, [])"
proof -
  let ?m1 = "\<lparr>cm_id = ascii ''1'', cm_text = ascii ''yo'', cm_sender = Other,
                      cm_roomId = ascii ''me--peer'', cm_timestamp = Num 1,
                      cm_senderId = ascii ''peer'', cm_created_at = None\<rparr>"
  let ?s = "\<lparr>currentUserId = Some (ascii ''me''), message = ascii ''hi'',
      chatHistory = [?m1],
      selectedChatId = Some (ascii ''peer''), currentRoomId = Some (ascii ''me--peer''),
      socket = True, isSocketConnected = True, lastViewedTimestamps = (\<lambda>r. None)\<rparr>"
  let ?cl = "\<lparr>tempId = ascii ''me-5'', messageText = ascii ''hi'',
             send_roomId = ascii ''me--peer'', send_userId = ascii ''me''\<rparr>"
  let ?opt = "\<lparr>cm_id = ascii ''me-5'', cm_text = ascii ''hi'', cm_sender = Me,
                      cm_roomId = ascii ''me--peer'', cm_timestamp = Num 6,
                      cm_senderId = ascii ''me'', cm_created_at = None\<rparr>"
  have sub: "handleSend_submit 5 6 ?s = Some (?s\<lparr>message := [], chatHistory := [?m1, ?opt]\<rparr>, ?cl)"
    by (simp add: handleSend_submit_def trim_def isWhiteSpace_def ascii_def digits.simps)
  have res: "InsertError = InsertError \<or> InsertError = InsertThrows" by simp
  have fresh: "tempId ?cl \<notin> cm_id ` set (chatHistory ?s)"
    by (simp add: ascii_def)
  from handleSend_persistence_failure [OF sub res, of "\<lambda>c. NaN"] fresh
  have "snd (handleSend (\<lambda>c. NaN) 5 6 InsertError ?s) = []
        \<and> fst (handleSend (\<lambda>c. NaN) 5 6 InsertError ?s) = ?s"
    by blast
  then show ?thesis by (simp add: prod_eq_iff)
qed

text \<open>
  C1. After a failed insert the displayed sequence is to be what it was before the send.
  The temporary id is the user id and the reading of the clock in milliseconds, and the
  rollback removes by id: a first message is sent and still pending, a second one is
  sent at the same reading of the clock and its insert fails; the rollback removes the
  pending first message together with the second.
\<close>

theorem handleSend_failure_removes_earlier_pending:
  "handleSend_submit 5 5
     \<lparr>currentUserId = Some (ascii ''me''), message = ascii ''a'',
      chatHistory = [\<lparr>cm_id = ascii ''1'', cm_text = ascii ''yo'', cm_sender = Other,
                      cm_roomId = ascii ''me--peer'', cm_timestamp = Num 1,
                      cm_senderId = ascii ''peer'', cm_created_at = Some (ascii ''t1'')\<rparr>],
      selectedChatId = Some (ascii ''peer''), currentRoomId = Some (ascii ''me--peer''),
      socket = True, isSocketConnected = True, lastViewedTimestamps = (\<lambda>r. None)\<rparr>
   = Some (\<lparr>currentUserId = Some (ascii ''me''), message = [],
            chatHistory = [\<lparr>cm_id = ascii ''1'', cm_text = ascii ''yo'', cm_sender = Other,
                            cm_roomId = ascii ''me--peer'', cm_timestamp = Num 1,
                            cm_senderId = ascii ''peer'', cm_created_at = Some (ascii ''t1'')\<rparr>,
                           \<lparr>cm_id = ascii ''me-5'', cm_text = ascii ''a'', cm_sender = Me,
                            cm_roomId = ascii ''me--peer'', cm_timestamp = Num 5,
                            cm_senderId = ascii ''me'', cm_created_at = None\<rparr>],
            selectedChatId = Some (ascii ''peer''), currentRoomId = Some (ascii ''me--peer''),
            socket = True, isSocketConnected = True, lastViewedTimestamps = (\<lambda>r. None)\<rparr>,
           \<lparr>tempId = ascii ''me-5'', messageText = ascii ''a'',
            send_roomId = ascii ''me--peer'', send_userId = ascii ''me''\<rparr>)
   \<and> handleSend (\<lambda>c. NaN) 5 5 InsertError
       \<lparr>currentUserId = Some (ascii ''me''), message = ascii ''b'',
        chatHistory = [\<lparr>cm_id = ascii ''1'', cm_text = ascii ''yo'', cm_sender = Other,
                        cm_roomId = ascii ''me--peer'', cm_timestamp = Num 1,
                        cm_senderId = ascii ''peer'', cm_created_at = Some (ascii ''t1'')\<rparr>,
                       \<lparr>cm_id = ascii ''me-5'', cm_text = ascii ''a'', cm_sender = Me,
                        cm_roomId = ascii ''me--peer'', cm_timestamp = Num 5,
                        cm_senderId = ascii ''me'', cm_created_at = None\<rparr>],
        selectedChatId = Some (ascii ''peer''), currentRoomId = Some (ascii ''me--peer''),
        socket = True, isSocketConnected = True, lastViewedTimestamps = (\<lambda>r. None)\<rparr>
     = (\<lparr>currentUserId = Some (ascii ''me''), message = ascii ''b'',
        chatHistory = [\<lparr>cm_id = ascii ''1'', cm_text = ascii ''yo'', cm_sender = Other,
                        cm_roomId = ascii ''me--peer'', cm_timestamp = Num 1,
                        cm_senderId = ascii ''peer'', cm_created_at = Some (ascii ''t1'')\<rparr>],
        selectedChatId = Some (ascii ''peer''), currentRoomId = Some (ascii ''me--peer''),
        socket = True, isSocketConnected = True, lastViewedTimestamps = (\<lambda>r. None)\<rparr>, [])"
  by (simp add: handleSend_def handleSend_submit_def handleSend_settle_def trim_def
      isWhiteSpace_def ascii_def digits.simps)

lemma confirmMessage_length: "length (confirmMessage getTime t r prev) = length prev"
  by (simp add: confirmMessage_def)

lemma confirmMessage_other:
  "j < length prev \<Longrightarrow> cm_id (prev ! j) \<noteq> t \<Longrightarrow> confirmMessage getTime t r prev ! j = prev ! j"
  by (simp add: confirmMessage_def)

lemma confirmMessage_same:
  "i < length prev \<Longrightarrow> cm_id (prev ! i) = t \<Longrightarrow>
   confirmMessage getTime t r prev ! i =
     (prev ! i)\<lparr>cm_id := ins_id r, cm_timestamp := getTime (ins_created_at r),
                cm_created_at := Some (ins_created_at r)\<rparr>"
  by (simp add: confirmMessage_def)

text \<open>
  The confirmation selects by id. In a sequence whose entry at position i is the only
  one with the temporary id t, confirming with the row of the store rewrites the id, the
  timestamp and \<^verbatim>\<open>created_at\<close> of that entry where it stands: the length is kept, every
  other entry is unchanged, and the text, sender tag, room and sender id of the entry
  are kept. This is the update \<^verbatim>\<open>handleSend\<close> makes on a successful insert, before it
  emits.
\<close>

lemma confirmMessage_in_place:
  assumes "i < length prev" and "cm_id (prev ! i) = t"
    and "\<forall>j<length prev. j \<noteq> i \<longrightarrow> cm_id (prev ! j) \<noteq> t"
  shows "confirmMessage getTime t r prev =
           prev[i := (prev ! i)\<lparr>cm_id := ins_id r, cm_timestamp := getTime (ins_created_at r),
                               cm_created_at := Some (ins_created_at r)\<rparr>]
       \<and> length (confirmMessage getTime t r prev) = length prev
       \<and> (\<forall>j<length prev. j \<noteq> i \<longrightarrow> confirmMessage getTime t r prev ! j = prev ! j)
       \<and> cm_id (confirmMessage getTime t r prev ! i) = ins_id r
       \<and> cm_created_at (confirmMessage getTime t r prev ! i) = Some (ins_created_at r)
       \<and> cm_timestamp (confirmMessage getTime t r prev ! i) = getTime (ins_created_at r)
       \<and> cm_text (confirmMessage getTime t r prev ! i) = cm_text (prev ! i)
       \<and> cm_sender (confirmMessage getTime t r prev ! i) = cm_sender (prev ! i)
       \<and> cm_roomId (confirmMessage getTime t r prev ! i) = cm_roomId (prev ! i)
       \<and> cm_senderId (confirmMessage getTime t r prev ! i) = cm_senderId (prev ! i)
       \<and> (socket s \<longrightarrow>
            handleSend_settle getTime \<lparr>tempId = t, messageText = txt, send_roomId = rid, send_userId = uid\<rparr>
                (InsertData (Some r)) (s\<lparr>chatHistory := prev\<rparr>)
              = (s\<lparr>chatHistory := confirmMessage getTime t r prev\<rparr>, [EmitSendMessage txt rid uid]))"
proof -
  have others: "\<forall>j<length prev. j \<noteq> i \<longrightarrow> confirmMessage getTime t r prev ! j = prev ! j"
    using assms(3) by (simp add: confirmMessage_other)
  have same: "confirmMessage getTime t r prev ! i =
     (prev ! i)\<lparr>cm_id := ins_id r, cm_timestamp := getTime (ins_created_at r),
                cm_created_at := Some (ins_created_at r)\<rparr>"
    using assms(1,2) by (rule confirmMessage_same)
  have "confirmMessage getTime t r prev =
           prev[i := (prev ! i)\<lparr>cm_id := ins_id r, cm_timestamp := getTime (ins_created_at r),
                               cm_created_at := Some (ins_created_at r)\<rparr>]"
  proof (rule nth_equalityI)
    show "length (confirmMessage getTime t r prev) = length (prev[i := (prev ! i)\<lparr>cm_id := ins_id r, cm_timestamp := getTime (ins_created_at r),
                               cm_created_at := Some (ins_created_at r)\<rparr>])"
      by (simp add: confirmMessage_length)
  next
    fix j assume "j < length (confirmMessage getTime t r prev)"
    then have j: "j < length prev" by (simp add: confirmMessage_length)
    show "confirmMessage getTime t r prev ! j = prev[i := (prev ! i)\<lparr>cm_id := ins_id r, cm_timestamp := getTime (ins_created_at r),
                               cm_created_at := Some (ins_created_at r)\<rparr>] ! j"
      using j others same assms(1) by (cases "j = i") simp_all
  qed
  moreover have "socket s \<longrightarrow>
            handleSend_settle getTime \<lparr>tempId = t, messageText = txt, send_roomId = rid, send_userId = uid\<rparr>
                (InsertData (Some r)) (s\<lparr>chatHistory := prev\<rparr>)
              = (s\<lparr>chatHistory := confirmMessage getTime t r prev\<rparr>, [EmitSendMessage txt rid uid])"
    by (simp add: handleSend_settle_def)
  ultimately show ?thesis
    using others same by (simp add: confirmMessage_length)
qed

lemma confirmMessage_in_place_example:
  "confirmMessage (\<lambda>c. if c = ascii ''t9'' then Num 9 else NaN) (ascii ''me-5'')
     \<lparr>ins_id = ascii ''db7'', ins_created_at = ascii ''t9''\<rparr>
     [\<lparr>cm_id = ascii ''1'', cm_text = ascii ''yo'', cm_sender = Other,
       cm_roomId = ascii ''r'', cm_timestamp = Num 1, cm_senderId = ascii ''peer'', cm_created_at = None\<rparr>,
      \<lparr>cm_id = ascii ''me-5'', cm_text = ascii ''hi'', cm_sender = Me,
       cm_roomId = ascii ''r'', cm_timestamp = Num 6, cm_senderId = ascii ''me'', cm_created_at = None\<rparr>,
      \<lparr>cm_id = ascii ''peer-7'', cm_text = ascii ''ok'', cm_sender = Other,
       cm_roomId = ascii ''r'', cm_timestamp = Num 7, cm_senderId = ascii ''peer'', cm_created_at = None\<rparr>]
   = [\<lparr>cm_id = ascii ''1'', cm_text = ascii ''yo'', cm_sender = Other,
       cm_roomId = ascii ''r'', cm_timestamp = Num 1, cm_senderId = ascii ''peer'', cm_created_at = None\<rparr>,
      \<lparr>cm_id = ascii ''db7'', cm_text = ascii ''hi'', cm_sender = Me,
       cm_roomId = ascii ''r'', cm_timestamp = Num 9, cm_senderId = ascii ''me'',
       cm_created_at = Some (ascii ''t9'')\<rparr>,
      \<lparr>cm_id = ascii ''peer-7'', cm_text = ascii ''ok'', cm_sender = Other,
       cm_roomId = ascii ''r'', cm_timestamp = Num 7, cm_senderId = ascii ''peer'', cm_created_at = None\<rparr>]"
proof -
  let ?g = "\<lambda>c. if c = ascii ''t9'' then Num 9 else NaN"
  let ?prev = "[\<lparr>cm_id = ascii ''1'', cm_text = ascii ''yo'', cm_sender = Other,
       cm_roomId = ascii ''r'', cm_timestamp = Num 1, cm_senderId = ascii ''peer'', cm_created_at = None\<rparr>,
      \<lparr>cm_id = ascii ''me-5'', cm_text = ascii ''hi'', cm_sender = Me,
       cm_roomId = ascii ''r'', cm_timestamp = Num 6, cm_senderId = ascii ''me'', cm_created_at = None\<rparr>,
      \<lparr>cm_id = ascii ''peer-7'', cm_text = ascii ''ok'', cm_sender = Other,
       cm_roomId = ascii ''r'', cm_timestamp = Num 7, cm_senderId = ascii ''peer'', cm_created_at = None\<rparr>]"
  have i: "(1::nat) < length ?prev" by simp
  have t: "cm_id (?prev ! 1) = ascii ''me-5''" by simp
  have u: "\<forall>j<length ?prev. j \<noteq> 1 \<longrightarrow> cm_id (?prev ! j) \<noteq> ascii ''me-5''"
    by (simp add: ascii_def numeral_3_eq_3 less_Suc_eq)
  from confirmMessage_in_place [OF i t u, of ?g "\<lparr>ins_id = ascii ''db7'', ins_created_at = ascii ''t9''\<rparr>"]
  have "confirmMessage ?g (ascii ''me-5'') \<lparr>ins_id = ascii ''db7'', ins_created_at = ascii ''t9''\<rparr> ?prev
        = ?prev[1 := (?prev ! 1)\<lparr>cm_id := ins_id \<lparr>ins_id = ascii ''db7'', ins_created_at = ascii ''t9''\<rparr>,
              cm_timestamp := ?g (ins_created_at \<lparr>ins_id = ascii ''db7'', ins_created_at = ascii ''t9''\<rparr>),
              cm_created_at := Some (ins_created_at \<lparr>ins_id = ascii ''db7'', ins_created_at = ascii ''t9''\<rparr>)\<rparr>]"
    by blast
  then show ?thesis by simp
qed

text \<open>
  C8. Confirming a pending message is to rewrite that entry alone. The confirmation
  rewrites every entry that has the temporary id: two messages are sent at the same
  reading of the clock and both are pending; when the store confirms the first, the
  second takes the id, the timestamp and \<^verbatim>\<open>created_at\<close> of the first as well.
\<close>

theorem confirmMessage_rewrites_both_pending:
  "handleSend_submit 5 5
       \<lparr>currentUserId = Some (ascii ''me''), message = ascii ''b'',
        chatHistory = [\<lparr>cm_id = ascii ''me-5'', cm_text = ascii ''a'', cm_sender = Me,
                        cm_roomId = ascii ''me--peer'', cm_timestamp = Num 5,
                        cm_senderId = ascii ''me'', cm_created_at = None\<rparr>],
        selectedChatId = Some (ascii ''peer''), currentRoomId = Some (ascii ''me--peer''),
        socket = True, isSocketConnected = True, lastViewedTimestamps = (\<lambda>r. None)\<rparr>
   = Some (\<lparr>currentUserId = Some (ascii ''me''), message = [],
        chatHistory = [\<lparr>cm_id = ascii ''me-5'', cm_text = ascii ''a'', cm_sender = Me,
                        cm_roomId = ascii ''me--peer'', cm_timestamp = Num 5,
                        cm_senderId = ascii ''me'', cm_created_at = None\<rparr>,
                       \<lparr>cm_id = ascii ''me-5'', cm_text = ascii ''b'', cm_sender = Me,
                        cm_roomId = ascii ''me--peer'', cm_timestamp = Num 5,
                        cm_senderId = ascii ''me'', cm_created_at = None\<rparr>],
        selectedChatId = Some (ascii ''peer''), currentRoomId = Some (ascii ''me--peer''),
        socket = True, isSocketConnected = True, lastViewedTimestamps = (\<lambda>r. None)\<rparr>,
       \<lparr>tempId = ascii ''me-5'', messageText = ascii ''b'',
        send_roomId = ascii ''me--peer'', send_userId = ascii ''me''\<rparr>)
   \<and> handleSend_settle (\<lambda>c. if c = ascii ''t9'' then Num 9 else NaN)
       \<lparr>tempId = ascii ''me-5'', messageText = ascii ''a'',
        send_roomId = ascii ''me--peer'', send_userId = ascii ''me''\<rparr>
       (InsertData (Some \<lparr>ins_id = ascii ''db7'', ins_created_at = ascii ''t9''\<rparr>))
       \<lparr>currentUserId = Some (ascii ''me''), message = [],
        chatHistory = [\<lparr>cm_id = ascii ''me-5'', cm_text = ascii ''a'', cm_sender = Me,
                        cm_roomId = ascii ''me--peer'', cm_timestamp = Num 5,
                        cm_senderId = ascii ''me'', cm_created_at = None\<rparr>,
                       \<lparr>cm_id = ascii ''me-5'', cm_text = ascii ''b'', cm_sender = Me,
                        cm_roomId = ascii ''me--peer'', cm_timestamp = Num 5,
                        cm_senderId = ascii ''me'', cm_created_at = None\<rparr>],
        selectedChatId = Some (ascii ''peer''), currentRoomId = Some (ascii ''me--peer''),
        socket = True, isSocketConnected = True, lastViewedTimestamps = (\<lambda>r. None)\<rparr>
     = (\<lparr>currentUserId = Some (ascii ''me''), message = [],
        chatHistory = [\<lparr>cm_id = ascii ''db7'', cm_text = ascii ''a'', cm_sender = Me,
                        cm_roomId = ascii ''me--peer'', cm_timestamp = Num 9,
                        cm_senderId = ascii ''me'', cm_created_at = Some (ascii ''t9'')\<rparr>,
                       \<lparr>cm_id = ascii ''db7'', cm_text = ascii ''b'', cm_sender = Me,
                        cm_roomId = ascii ''me--peer'', cm_timestamp = Num 9,
                        cm_senderId = ascii ''me'', cm_created_at = Some (ascii ''t9'')\<rparr>],
        selectedChatId = Some (ascii ''peer''), currentRoomId = Some (ascii ''me--peer''),
        socket = True, isSocketConnected = True, lastViewedTimestamps = (\<lambda>r. None)\<rparr>,
       [EmitSendMessage (ascii ''a'') (ascii ''me--peer'') (ascii ''me'')])"
  by (simp add: handleSend_submit_def handleSend_settle_def confirmMessage_def trim_def
      isWhiteSpace_def ascii_def digits.simps)

text \<open>
  A successful send whose temporary id is new to the sequence ends with the confirmed
  message appended and one \<^verbatim>\<open>sendMessage\<close> event.
\<close>

lemma confirmMessage_fresh:
  "t \<notin> cm_id ` set prev \<Longrightarrow> confirmMessage getTime t r prev = prev"
  by (induction prev) (auto simp: confirmMessage_def)

lemma confirmMessage_append:
  "confirmMessage getTime t r (xs @ ys) = confirmMessage getTime t r xs @ confirmMessage getTime t r ys"
  by (simp add: confirmMessage_def)

lemma handleSend_success:
  assumes "handleSend_submit now1 now2 s = Some (s1, cl)"
    and "tempId cl \<notin> cm_id ` set (chatHistory s)"
  shows "handleSend getTime now1 now2 (InsertData (Some r)) s =
           (s\<lparr>message := [],
              chatHistory := chatHistory s @
                [\<lparr>cm_id = ins_id r, cm_text = message s, cm_sender = Me,
                  cm_roomId = send_roomId cl, cm_timestamp = getTime (ins_created_at r),
                  cm_senderId = send_userId cl, cm_created_at = Some (ins_created_at r)\<rparr>]\<rparr>,
            [EmitSendMessage (message s) (send_roomId cl) (send_userId cl)])"
proof -
  from assms(1) have sock: "socket s"
    by (auto simp: handleSend_submit_def Let_def split: option.splits if_splits)
  from assms(1) have s1: "s1 = s\<lparr>message := [], chatHistory := chatHistory s @
      [\<lparr>cm_id = tempId cl, cm_text = message s, cm_sender = Me, cm_roomId = send_roomId cl,
        cm_timestamp = Num (int now2), cm_senderId = send_userId cl, cm_created_at = None\<rparr>]\<rparr>"
    and mt: "messageText cl = message s"
    by (auto simp: handleSend_submit_def Let_def split: option.splits if_splits)
  show ?thesis
    using assms sock mt
    by (simp add: handleSend_def handleSend_settle_def s1 confirmMessage_append
        confirmMessage_fresh) (simp add: confirmMessage_def)
qed


section \<open>Properties of the client: the unread boundary\<close>

text \<open>Every operation on the history keeps the sender tags in agreement with the sender ids.\<close>

lemma tags_agree_receive:
  "tags_agree (currentUserId s) (chatHistory s) \<Longrightarrow>
   tags_agree (currentUserId s) (chatHistory (receiveMessageHandler now1 now2 msg s))"
  by (auto simp: tags_agree_def receiveMessageHandler_def)

lemma tags_agree_fetchHistory:
  "tags_agree (currentUserId s) (chatHistory (fetchHistory getTime result s))"
  by (auto simp: tags_agree_def fetchHistory_def formatRow_def split: query_result.splits option.splits)

lemma tags_agree_confirm:
  "tags_agree u xs \<Longrightarrow> tags_agree u (confirmMessage getTime t r xs)"
  by (induction xs) (simp_all add: tags_agree_def confirmMessage_def)

lemma tags_agree_filter: "tags_agree u xs \<Longrightarrow> tags_agree u (filter P xs)"
  by (simp add: tags_agree_def)

lemma tags_agree_submit:
  assumes "handleSend_submit now1 now2 s = Some (s1, cl)" and "tags_agree (currentUserId s) (chatHistory s)"
  shows "tags_agree (currentUserId s1) (chatHistory s1)"
proof -
  from assms(1) obtain m where "s1 = s\<lparr>message := [], chatHistory := chatHistory s @ [m]\<rparr>"
    "cm_sender m = Me" "Some (cm_senderId m) = currentUserId s"
    using handleSend_submit_optimistic by blast
  with assms(2) show ?thesis by (auto simp: tags_agree_def)
qed

lemma tags_agree_settle:
  "tags_agree (currentUserId s) (chatHistory s) \<Longrightarrow>
   tags_agree (currentUserId (fst (handleSend_settle getTime cl result s)))
              (chatHistory (fst (handleSend_settle getTime cl result s)))"
  by (cases result)
     (auto simp: handleSend_settle_def Let_def tags_agree_filter tags_agree_confirm
           split: option.splits)

lemma tags_agree_filtered:
  "tags_agree (currentUserId s) (chatHistory s) \<Longrightarrow> tags_agree (currentUserId s) (filteredChatHistory s)"
  by (simp add: filteredChatHistory_def tags_agree_filter)

lemma findIndex_ge: "- 1 \<le> findIndex P xs"
  by (induction xs) (auto simp: Let_def)

lemma findIndex_none: "findIndex P xs = - 1 \<longleftrightarrow> (\<forall>x \<in> set xs. \<not> P x)"
proof (induction xs)
  case Nil
  show ?case by simp
next
  case (Cons x xs)
  have "- 1 \<le> findIndex P xs" by (rule findIndex_ge)
  with Cons show ?case by (auto simp: Let_def)
qed

lemma findIndex_first:
  "findIndex P xs = int i \<longleftrightarrow> i < length xs \<and> P (xs ! i) \<and> (\<forall>j<i. \<not> P (xs ! j))"
proof (induction xs arbitrary: i)
  case Nil
  show ?case by simp
next
  case (Cons x xs)
  show ?case
  proof (cases "P x")
    case True
    then show ?thesis by (cases i) auto
  next
    case False
    show ?thesis
    proof (cases i)
      case 0
      with False findIndex_ge [of P xs] show ?thesis by (auto simp: Let_def)
    next
      case (Suc k)
      have "(\<forall>j<Suc k. \<not> P ((x # xs) ! j)) \<longleftrightarrow> (\<forall>j<k. \<not> P (xs ! j))"
        using False by (auto simp: less_Suc_eq_0_disj)
      moreover have "findIndex P (x # xs) = int (Suc k) \<longleftrightarrow> findIndex P xs = int k"
        using False by (auto simp: Let_def)
      ultimately show ?thesis
        using Suc Cons.IH [of k] by simp
    qed
  qed
qed

lemma findIndex_cong_set:
  "(\<forall>x \<in> set xs. P x = Q x) \<Longrightarrow> findIndex P xs = findIndex Q xs"
  by (induction xs) (auto simp: Let_def)

lemma isUnread_amended:
  "(cm_sender m = Me) = (Some (cm_senderId m) = selfId) \<Longrightarrow>
   isUnread getTime lastViewed m = unread_amended getTime lastViewed selfId m"
  by (cases "messageTime getTime m")
     (auto simp: isUnread_def unread_amended_def messageTime_def Let_def
           split: option.splits if_splits)

lemma unread_amended_created_at:
  "cm_created_at m = Some c \<Longrightarrow> c \<noteq> [] \<Longrightarrow>
   unread_amended getTime lastViewed selfId m = unread_spec getTime lastViewed selfId m"
  by (simp add: unread_amended_def unread_spec_def)

lemma firstUnreadIndex_not_viewed:
  "lastViewed \<le> 0 \<Longrightarrow> firstUnreadIndex getTime lastViewed xs = - 1"
  by (simp add: firstUnreadIndex_def)

text \<open>
  C7, as stated, fails: a message relayed live carries no \<^verbatim>\<open>created_at\<close>, so it does
  not have a \<^verbatim>\<open>created_at\<close> later than \<open>lastViewed\<close>; the code compares the time of
  its receipt and draws the boundary at it.
\<close>

theorem firstUnreadIndex_relayed_counterexample:
  "tags_agree (Some (ascii ''me''))
     [\<lparr>cm_id = ascii ''peer-1010'', cm_text = ascii ''hi'', cm_sender = Other,
       cm_roomId = ascii ''r'', cm_timestamp = Num 1010, cm_senderId = ascii ''peer'',
       cm_created_at = None\<rparr>]
   \<and> \<not> unread_spec (\<lambda>c. NaN) 1005 (Some (ascii ''me''))
        \<lparr>cm_id = ascii ''peer-1010'', cm_text = ascii ''hi'', cm_sender = Other,
         cm_roomId = ascii ''r'', cm_timestamp = Num 1010, cm_senderId = ascii ''peer'',
         cm_created_at = None\<rparr>
   \<and> firstUnreadIndex (\<lambda>c. NaN) 1005
        [\<lparr>cm_id = ascii ''peer-1010'', cm_text = ascii ''hi'', cm_sender = Other,
          cm_roomId = ascii ''r'', cm_timestamp = Num 1010, cm_senderId = ascii ''peer'',
          cm_created_at = None\<rparr>] = 0"
  by (simp add: tags_agree_def unread_spec_def firstUnreadIndex_def isUnread_def
      messageTime_def ascii_def)

text \<open>
  C7, amended. \<open>firstUnreadIndex\<close> is a function of the sequence and the timestamp
  alone, so it changes nothing. For a timestamp \<open>lastViewed\<close> (not negative) and a
  sequence whose sender tags agree with the sender ids: when \<open>lastViewed\<close> is 0 the
  result is -1; otherwise it is the index of the first message whose time is later than
  \<open>lastViewed\<close> and whose sender is not the viewing user, and -1 when there is no such
  message, where the time of a message is its \<^verbatim>\<open>created_at\<close> and, for a message that
  carries none, its client-side \<^verbatim>\<open>timestamp\<close>. On a sequence in which every message
  carries a \<^verbatim>\<open>created_at\<close>, as the persisted history does, that is the claim as it was
  stated.
\<close>

theorem firstUnreadIndex_boundary:
  assumes "0 \<le> lastViewed" and "tags_agree selfId xs"
  shows "(lastViewed = 0 \<longrightarrow> firstUnreadIndex getTime lastViewed xs = - 1)
       \<and> (lastViewed \<noteq> 0 \<longrightarrow>
            (\<forall>i. firstUnreadIndex getTime lastViewed xs = int i \<longleftrightarrow>
                   i < length xs \<and> unread_amended getTime lastViewed selfId (xs ! i)
                   \<and> (\<forall>j<i. \<not> unread_amended getTime lastViewed selfId (xs ! j)))
          \<and> (firstUnreadIndex getTime lastViewed xs = - 1 \<longleftrightarrow>
                (\<forall>m \<in> set xs. \<not> unread_amended getTime lastViewed selfId m)))
       \<and> - 1 \<le> firstUnreadIndex getTime lastViewed xs
       \<and> ((\<forall>m \<in> set xs. \<exists>c. cm_created_at m = Some c \<and> c \<noteq> []) \<and> lastViewed \<noteq> 0 \<longrightarrow>
            (\<forall>i. firstUnreadIndex getTime lastViewed xs = int i \<longleftrightarrow>
                   i < length xs \<and> unread_spec getTime lastViewed selfId (xs ! i)
                   \<and> (\<forall>j<i. \<not> unread_spec getTime lastViewed selfId (xs ! j)))
          \<and> (firstUnreadIndex getTime lastViewed xs = - 1 \<longleftrightarrow>
                (\<forall>m \<in> set xs. \<not> unread_spec getTime lastViewed selfId m)))"
proof -
  have eq: "findIndex (isUnread getTime lastViewed) xs
            = findIndex (unread_amended getTime lastViewed selfId) xs"
    using assms(2) by (intro findIndex_cong_set) (simp add: tags_agree_def isUnread_amended)
  have zero: "lastViewed = 0 \<longrightarrow> firstUnreadIndex getTime lastViewed xs = - 1"
    by (simp add: firstUnreadIndex_def)
  have pos: "lastViewed \<noteq> 0 \<longrightarrow> firstUnreadIndex getTime lastViewed xs
               = findIndex (unread_amended getTime lastViewed selfId) xs"
    using assms(1) eq by (simp add: firstUnreadIndex_def)
  have ge: "- 1 \<le> firstUnreadIndex getTime lastViewed xs"
    by (simp add: firstUnreadIndex_def findIndex_ge)
  have stored: "firstUnreadIndex getTime lastViewed xs
               = findIndex (unread_spec getTime lastViewed selfId) xs"
    if all: "\<forall>m \<in> set xs. \<exists>c. cm_created_at m = Some c \<and> c \<noteq> []" and nz: "lastViewed \<noteq> 0"
  proof -
    have "\<forall>m \<in> set xs. unread_amended getTime lastViewed selfId m
                       = unread_spec getTime lastViewed selfId m"
      using all by (auto simp: unread_amended_created_at)
    then have "findIndex (unread_amended getTime lastViewed selfId) xs
             = findIndex (unread_spec getTime lastViewed selfId) xs"
      by (rule findIndex_cong_set)
    with pos nz show ?thesis by simp
  qed
  have amended: "lastViewed \<noteq> 0 \<longrightarrow>
            (\<forall>i. firstUnreadIndex getTime lastViewed xs = int i \<longleftrightarrow>
                   i < length xs \<and> unread_amended getTime lastViewed selfId (xs ! i)
                   \<and> (\<forall>j<i. \<not> unread_amended getTime lastViewed selfId (xs ! j)))
          \<and> (firstUnreadIndex getTime lastViewed xs = - 1 \<longleftrightarrow>
                (\<forall>m \<in> set xs. \<not> unread_amended getTime lastViewed selfId m))"
    using pos by (simp add: findIndex_first findIndex_none)
  have as_stated: "(\<forall>m \<in> set xs. \<exists>c. cm_created_at m = Some c \<and> c \<noteq> []) \<and> lastViewed \<noteq> 0 \<longrightarrow>
            (\<forall>i. firstUnreadIndex getTime lastViewed xs = int i \<longleftrightarrow>
                   i < length xs \<and> unread_spec getTime lastViewed selfId (xs ! i)
                   \<and> (\<forall>j<i. \<not> unread_spec getTime lastViewed selfId (xs ! j)))
          \<and> (firstUnreadIndex getTime lastViewed xs = - 1 \<longleftrightarrow>
                (\<forall>m \<in> set xs. \<not> unread_spec getTime lastViewed selfId m))"
  proof
    assume h: "(\<forall>m \<in> set xs. \<exists>c. cm_created_at m = Some c \<and> c \<noteq> []) \<and> lastViewed \<noteq> 0"
    then have "firstUnreadIndex getTime lastViewed xs
               = findIndex (unread_spec getTime lastViewed selfId) xs"
      using stored by blast
    then show "(\<forall>i. firstUnreadIndex getTime lastViewed xs = int i \<longleftrightarrow>
                   i < length xs \<and> unread_spec getTime lastViewed selfId (xs ! i)
                   \<and> (\<forall>j<i. \<not> unread_spec getTime lastViewed selfId (xs ! j)))
          \<and> (firstUnreadIndex getTime lastViewed xs = - 1 \<longleftrightarrow>
                (\<forall>m \<in> set xs. \<not> unread_spec getTime lastViewed selfId m))"
      by (simp add: findIndex_first findIndex_none)
  qed
  from zero amended ge as_stated show ?thesis by (intro conjI)
qed

theorem firstUnreadIndex_boundary_witness:
  "tags_agree (Some (ascii ''me''))
     [\<lparr>cm_id = ascii ''1'', cm_text = ascii ''old'', cm_sender = Other, cm_roomId = ascii ''r'',
       cm_timestamp = Num 50, cm_senderId = ascii ''peer'', cm_created_at = Some (ascii ''t50'')\<rparr>,
      \<lparr>cm_id = ascii ''2'', cm_text = ascii ''mine'', cm_sender = Me, cm_roomId = ascii ''r'',
       cm_timestamp = Num 200, cm_senderId = ascii ''me'', cm_created_at = None\<rparr>,
      \<lparr>cm_id = ascii ''3'', cm_text = ascii ''new'', cm_sender = Other, cm_roomId = ascii ''r'',
       cm_timestamp = Num 300, cm_senderId = ascii ''peer'', cm_created_at = None\<rparr>]
   \<and> firstUnreadIndex (\<lambda>c. if c = ascii ''t50'' then Num 50 else NaN) 100
     [\<lparr>cm_id = ascii ''1'', cm_text = ascii ''old'', cm_sender = Other, cm_roomId = ascii ''r'',
       cm_timestamp = Num 50, cm_senderId = ascii ''peer'', cm_created_at = Some (ascii ''t50'')\<rparr>,
      \<lparr>cm_id = ascii ''2'', cm_text = ascii ''mine'', cm_sender = Me, cm_roomId = ascii ''r'',
       cm_timestamp = Num 200, cm_senderId = ascii ''me'', cm_created_at = None\<rparr>,
      \<lparr>cm_id = ascii ''3'', cm_text = ascii ''new'', cm_sender = Other, cm_roomId = ascii ''r'',
       cm_timestamp = Num 300, cm_senderId = ascii ''peer'', cm_created_at = None\<rparr>] = 2
   \<and> firstUnreadIndex (\<lambda>c. if c = ascii ''t150'' then Num 150 else Num 50) 100
     [\<lparr>cm_id = ascii ''1'', cm_text = ascii ''old'', cm_sender = Other, cm_roomId = ascii ''r'',
       cm_timestamp = Num 50, cm_senderId = ascii ''peer'', cm_created_at = Some (ascii ''t50'')\<rparr>,
      \<lparr>cm_id = ascii ''2'', cm_text = ascii ''new'', cm_sender = Other, cm_roomId = ascii ''r'',
       cm_timestamp = Num 150, cm_senderId = ascii ''peer'', cm_created_at = Some (ascii ''t150'')\<rparr>] = 1"
proof -
  let ?g = "\<lambda>c. if c = ascii ''t50'' then Num 50 else NaN"
  let ?xs = "[\<lparr>cm_id = ascii ''1'', cm_text = ascii ''old'', cm_sender = Other, cm_roomId = ascii ''r'',
       cm_timestamp = Num 50, cm_senderId = ascii ''peer'', cm_created_at = Some (ascii ''t50'')\<rparr>,
      \<lparr>cm_id = ascii ''2'', cm_text = ascii ''mine'', cm_sender = Me, cm_roomId = ascii ''r'',
       cm_timestamp = Num 200, cm_senderId = ascii ''me'', cm_created_at = None\<rparr>,
      \<lparr>cm_id = ascii ''3'', cm_text = ascii ''new'', cm_sender = Other, cm_roomId = ascii ''r'',
       cm_timestamp = Num 300, cm_senderId = ascii ''peer'', cm_created_at = None\<rparr>]"
  let ?h = "\<lambda>c. if c = ascii ''t150'' then Num 150 else Num 50"
  let ?ys = "[\<lparr>cm_id = ascii ''1'', cm_text = ascii ''old'', cm_sender = Other, cm_roomId = ascii ''r'',
       cm_timestamp = Num 50, cm_senderId = ascii ''peer'', cm_created_at = Some (ascii ''t50'')\<rparr>,
      \<lparr>cm_id = ascii ''2'', cm_text = ascii ''new'', cm_sender = Other, cm_roomId = ascii ''r'',
       cm_timestamp = Num 150, cm_senderId = ascii ''peer'', cm_created_at = Some (ascii ''t150'')\<rparr>]"
  have tags: "tags_agree (Some (ascii ''me'')) ?xs"
    by (simp add: tags_agree_def ascii_def)
  have tags': "tags_agree (Some (ascii ''me'')) ?ys"
    by (simp add: tags_agree_def ascii_def)
  have lv: "(0::int) \<le> 100" by simp
  have nz: "(100::int) \<noteq> 0" by simp
  have at2: "(2::nat) < length ?xs \<and> unread_amended ?g 100 (Some (ascii ''me'')) (?xs ! 2)
             \<and> (\<forall>j<2. \<not> unread_amended ?g 100 (Some (ascii ''me'')) (?xs ! j))"
    by (simp add: unread_amended_def ascii_def numeral_2_eq_2 less_Suc_eq)
  note a = firstUnreadIndex_boundary [OF lv tags, of ?g, THEN conjunct2, THEN conjunct1,
             THEN mp, OF nz, THEN conjunct1, THEN spec, of 2, THEN iffD2, OF at2]
  have stored: "(\<forall>m \<in> set ?ys. \<exists>c. cm_created_at m = Some c \<and> c \<noteq> []) \<and> (100::int) \<noteq> 0"
    by (simp add: ascii_def)
  have at1: "(1::nat) < length ?ys \<and> unread_spec ?h 100 (Some (ascii ''me'')) (?ys ! 1)
             \<and> (\<forall>j<1. \<not> unread_spec ?h 100 (Some (ascii ''me'')) (?ys ! j))"
    by (simp add: unread_spec_def ascii_def)
  note b = firstUnreadIndex_boundary [OF lv tags', of ?h, THEN conjunct2, THEN conjunct2,
             THEN conjunct2, THEN mp, OF stored, THEN conjunct1, THEN spec, of 1, THEN iffD2,
             OF at1]
  from a b tags show ?thesis by simp
qed

end
